theory Spec2Isabelle
  imports Main "HOL-Library.Word"
begin

section \<open>TelemedicineSystem.sol: data model\<close>

text \<open>
  A shallow embedding of the contract \<^verbatim>\<open>src/Contracts/TelemedicineSystem.sol\<close>.
  Addresses, \<^verbatim>\<open>uint256\<close>, \<^verbatim>\<open>uint96\<close>, \<^verbatim>\<open>uint48\<close> and \<^verbatim>\<open>bytes32\<close> values are natural numbers;
  Solidity 0.8 checked arithmetic is written out: an addition whose result leaves the
  type's range is the error \<open>Panic\<close>, an explicit narrowing conversion truncates.
  A \<^verbatim>\<open>uint48\<close> argument of an external function is a \<open>48 word\<close>: the ABI decoder reverts
  on a value outside the type, so no such value reaches the function.
  A call either reverts (\<open>Inl\<close> of the error, the chain state stays as it was) or
  returns the new state (\<open>Inr\<close>).
\<close>

type_synonym address = nat
type_synonym uint256 = nat
type_synonym bytes32 = nat

definition UINT256_MAX :: nat where
  "UINT256_MAX = 2 ^ 256 - 1"

definition ADDRESS_MAX :: nat where
  "ADDRESS_MAX = 2 ^ 160 - 1"

definition UINT96_MAX :: nat where
  "UINT96_MAX = 2 ^ 96 - 1"

definition uint48 :: "nat \<Rightarrow> nat" where
  "uint48 x = x mod 2 ^ 48"

definition MIN_BOOKING_BUFFER :: nat where
  "MIN_BOOKING_BUFFER = 15 * 60"

definition DATA_MONETIZATION_REWARD :: nat where
  "DATA_MONETIZATION_REWARD = 10 * 10 ^ 18"

definition ONE_DAY :: nat where
  "ONE_DAY = 86400"

definition THIRTY_DAYS :: nat where
  "THIRTY_DAYS = 30 * 86400"

datatype AppointmentStatus = Pending | Confirmed | Completed | Cancelled | Emergency
datatype PaymentType = ETH | USDC | SONIC
datatype LabTestStatus = Requested | Collected | ResultsUploaded | Reviewed
datatype PrescriptionStatus = Generated | Verified | Fulfilled
datatype DataSharingStatus = Disabled | Enabled

datatype role = ADMIN_ROLE | DOCTOR_ROLE | PATIENT_ROLE | LAB_TECH_ROLE | PHARMACY_ROLE

record GamificationData =
  mediPoints :: nat
  currentLevel :: nat

record Patient =
  pat_isRegistered :: bool
  pat_encryptedSymmetricKey :: string
  pat_medicalHistoryHash :: bytes32
  pat_gamification :: GamificationData
  pat_dataSharing :: DataSharingStatus
  pat_lastRewardTimestamp :: uint256

record Doctor =
  doc_isVerified :: bool
  doc_consultationFee :: uint256
  doc_licenseNumber :: string

record LabTechnician =
  tech_isVerified :: bool
  tech_licenseNumber :: string

record Pharmacy =
  pharm_isRegistered :: bool
  pharm_licenseNumber :: string

record Appointment =
  apt_id :: uint256
  apt_patient :: address
  apt_doctor :: address
  apt_scheduledTimestamp :: nat
  apt_status :: AppointmentStatus
  apt_fee :: uint256
  apt_paymentType :: PaymentType
  apt_videoCallLink :: string
  apt_isVideoCall :: bool

record LabTestOrder =
  lab_id :: uint256
  lab_patient :: address
  lab_doctor :: address
  lab_labTech :: address
  lab_status :: LabTestStatus
  lab_testType :: string
  lab_sampleCollectionIpfsHash :: string
  lab_resultsIpfsHash :: string
  lab_orderedTimestamp :: nat
  lab_completedTimestamp :: nat

record Prescription =
  rx_id :: uint256
  rx_patient :: address
  rx_doctor :: address
  rx_verificationCodeHash :: bytes32
  rx_medicationDetails :: string
  rx_prescriptionIpfsHash :: string
  rx_status :: PrescriptionStatus
  rx_pharmacy :: address
  rx_generatedTimestamp :: nat
  rx_expirationTimestamp :: nat

record AISymptomAnalysis =
  ai_id :: uint256
  ai_patient :: address
  ai_symptoms :: string
  ai_analysisIpfsHash :: string
  ai_doctorReviewed :: bool

text \<open>The value a Solidity mapping holds at a key that was never written: every field zero,
  every enum its first member.\<close>

definition default_Patient :: Patient where
  "default_Patient = \<lparr>pat_isRegistered = False, pat_encryptedSymmetricKey = [],
     pat_medicalHistoryHash = 0, pat_gamification = \<lparr>mediPoints = 0, currentLevel = 0\<rparr>,
     pat_dataSharing = Disabled, pat_lastRewardTimestamp = 0\<rparr>"

definition default_Doctor :: Doctor where
  "default_Doctor = \<lparr>doc_isVerified = False, doc_consultationFee = 0, doc_licenseNumber = []\<rparr>"

definition default_LabTechnician :: LabTechnician where
  "default_LabTechnician = \<lparr>tech_isVerified = False, tech_licenseNumber = []\<rparr>"

definition default_Pharmacy :: Pharmacy where
  "default_Pharmacy = \<lparr>pharm_isRegistered = False, pharm_licenseNumber = []\<rparr>"

definition default_Appointment :: Appointment where
  "default_Appointment = \<lparr>apt_id = 0, apt_patient = 0, apt_doctor = 0,
     apt_scheduledTimestamp = 0, apt_status = Pending, apt_fee = 0, apt_paymentType = ETH,
     apt_videoCallLink = [], apt_isVideoCall = False\<rparr>"

definition default_LabTestOrder :: LabTestOrder where
  "default_LabTestOrder = \<lparr>lab_id = 0, lab_patient = 0, lab_doctor = 0, lab_labTech = 0,
     lab_status = Requested, lab_testType = [], lab_sampleCollectionIpfsHash = [],
     lab_resultsIpfsHash = [], lab_orderedTimestamp = 0, lab_completedTimestamp = 0\<rparr>"

definition default_Prescription :: Prescription where
  "default_Prescription = \<lparr>rx_id = 0, rx_patient = 0, rx_doctor = 0,
     rx_verificationCodeHash = 0, rx_medicationDetails = [], rx_prescriptionIpfsHash = [],
     rx_status = Generated, rx_pharmacy = 0, rx_generatedTimestamp = 0,
     rx_expirationTimestamp = 0\<rparr>"

definition default_AISymptomAnalysis :: AISymptomAnalysis where
  "default_AISymptomAnalysis = \<lparr>ai_id = 0, ai_patient = 0, ai_symptoms = [],
     ai_analysisIpfsHash = [], ai_doctorReviewed = False\<rparr>"

datatype event =
    PatientRegistered address
  | DoctorVerified address
  | LabTechnicianVerified address
  | PharmacyRegistered address
  | AppointmentBooked uint256 address
  | LabTestOrdered uint256 address
  | LabTestResultsUploaded uint256 string
  | PrescriptionGenerated uint256 address
  | PrescriptionVerified uint256 address
  | PrescriptionFulfilled uint256 address
  | AISymptomAnalyzed uint256 address
  | VideoCallStarted uint256 string
  | DataMonetizationOptIn address bool
  | DataRewardClaimed address uint256
  | RoleGranted role address address
  | RoleRevoked role address address

text \<open>The revert reasons of the contract (the \<^verbatim>\<open>require\<close> strings), of the inherited
  OpenZeppelin modifiers, of checked arithmetic and of the calls the contract makes.\<close>

datatype error =
    MissingRole role address
  | PausablePaused
  | ReentrantCall
  | AlreadyRegistered
  | DoctorNotVerified
  | TooSoon
  | InsufficientETH
  | USDCTransferFailed
  | SONICTransferFailed
  | NotRegistered
  | DataSharingNotEnabled
  | RewardNotYetAvailable
  | InsufficientSONICTokens
  | OnlyEntryPointAllowed
  | InvalidSender
  | UserOperationFailed
  | NotYourAppointment
  | NotPending
  | PatientNotRegistered
  | NotYourOrder
  | ResultsNotUploaded
  | AlreadyReviewed
  | InvalidStatus
  | SampleNotCollected
  | InvalidCode
  | NotYourPrescription
  | NotVerified
  | Expired
  | Panic
  | TokenCallReverted
  | EntryPointCallReverted
  | EtherTransferFailed
  | CallerBalanceTooLow
  | NonPayable
  | RenounceNotSelf

subsection \<open>The token collaborator\<close>

text \<open>
  Modelled from the spec: the token-transfer collaborator. The contract imports the
  interface \<^verbatim>\<open>IERC20Upgradeable\<close>; the two token contracts behind \<^verbatim>\<open>usdcToken\<close> and
  \<^verbatim>\<open>sonicToken\<close> are not part of the repository. The spec gives the interface
  (\<^verbatim>\<open>transferFrom(from, to, amount) -> bool\<close>, \<^verbatim>\<open>transfer(to, amount) -> bool\<close>,
  \<^verbatim>\<open>balanceOf(identity) -> amount\<close>) and the two ways a transfer fails: a \<^verbatim>\<open>false\<close>
  return or a thrown failure. The model is a ledger of balances and allowances; a
  transfer the ledger cannot cover fails in the way the flag \<open>revertsOnFailure\<close> says
  (\<open>None\<close> is the thrown failure).
\<close>

record token =
  balanceOf :: "address \<Rightarrow> nat"
  allowance :: "address \<Rightarrow> address \<Rightarrow> nat"
  revertsOnFailure :: bool

text \<open>Moving an amount between two accounts of a ledger: debit first, then credit, so that a
  transfer to oneself changes nothing.\<close>

definition move :: "(address \<Rightarrow> nat) \<Rightarrow> address \<Rightarrow> address \<Rightarrow> nat \<Rightarrow> (address \<Rightarrow> nat)" where
  "move b src dst amt = (let b1 = b(src := b src - amt) in b1(dst := b1 dst + amt))"

definition token_transfer :: "token \<Rightarrow> address \<Rightarrow> address \<Rightarrow> nat \<Rightarrow> (bool \<times> token) option" where
  "token_transfer t src dst amt =
     (if balanceOf t src < amt
      then (if revertsOnFailure t then None else Some (False, t))
      else Some (True, t\<lparr>balanceOf := move (balanceOf t) src dst amt\<rparr>))"

definition token_transferFrom ::
  "token \<Rightarrow> address \<Rightarrow> address \<Rightarrow> address \<Rightarrow> nat \<Rightarrow> (bool \<times> token) option" where
  "token_transferFrom t spender src dst amt =
     (if balanceOf t src < amt \<or> allowance t src spender < amt
      then (if revertsOnFailure t then None else Some (False, t))
      else Some (True, t\<lparr>balanceOf := move (balanceOf t) src dst amt,
                          allowance := (allowance t)(src := (allowance t src)(spender := allowance t src spender - amt))\<rparr>))"

subsection \<open>Contract storage and its environment\<close>

record state =
  roles :: "role \<Rightarrow> address \<Rightarrow> bool"
  paused :: bool
  entered :: bool
  entryPoint :: address
  patients :: "address \<Rightarrow> Patient"
  doctors :: "address \<Rightarrow> Doctor"
  labTechnicians :: "address \<Rightarrow> LabTechnician"
  pharmacies :: "address \<Rightarrow> Pharmacy"
  appointments :: "uint256 \<Rightarrow> Appointment"
  labTestOrders :: "uint256 \<Rightarrow> LabTestOrder"
  prescriptions :: "uint256 \<Rightarrow> Prescription"
  aiAnalyses :: "uint256 \<Rightarrow> AISymptomAnalysis"
  appointmentCounter :: uint256
  labTestCounter :: uint256
  prescriptionCounter :: uint256
  aiAnalysisCounter :: uint256
  events :: "event list"
  self :: address
  ethBalance :: "address \<Rightarrow> nat"
  acceptsEther :: "address \<Rightarrow> bool"
  usdcToken :: token
  sonicToken :: token

text \<open>A reverted call leaves the state as it was before the call.\<close>

definition commit :: "state \<Rightarrow> error + state \<Rightarrow> state" where
  "commit s r = (case r of Inl e \<Rightarrow> s | Inr s' \<Rightarrow> s')"

definition emit :: "event \<Rightarrow> state \<Rightarrow> state" where
  "emit e s = s\<lparr>events := events s @ [e]\<rparr>"

text \<open>Modelled from the spec: the Role Registry. The contract inherits it from OpenZeppelin's
  \<^verbatim>\<open>AccessControlUpgradeable\<close>, whose source is not part of the repository. \<^verbatim>\<open>hasRole\<close> reads
  the membership; \<^verbatim>\<open>_grantRole\<close> and \<^verbatim>\<open>_revokeRole\<close> set and clear it, and a grant of a role
  the account already holds changes nothing and emits nothing.\<close>

definition hasRole :: "state \<Rightarrow> role \<Rightarrow> address \<Rightarrow> bool" where
  "hasRole s r a = roles s r a"

definition internal_grantRole :: "address \<Rightarrow> role \<Rightarrow> address \<Rightarrow> state \<Rightarrow> state" where
  "internal_grantRole sender r a s =
     (if hasRole s r a then s
      else emit (RoleGranted r a sender) (s\<lparr>roles := (roles s)(r := (roles s r)(a := True))\<rparr>))"

definition internal_revokeRole :: "address \<Rightarrow> role \<Rightarrow> address \<Rightarrow> state \<Rightarrow> state" where
  "internal_revokeRole sender r a s =
     (if hasRole s r a
      then emit (RoleRevoked r a sender) (s\<lparr>roles := (roles s)(r := (roles s r)(a := False))\<rparr>)
      else s)"

text \<open>\<^verbatim>\<open>initialize\<close>: storage starts all zero; every role is administered by
  \<^verbatim>\<open>ADMIN_ROLE\<close> and the deployer receives \<^verbatim>\<open>ADMIN_ROLE\<close>. The price feeds are stored and
  never read, so they are left out. The remaining arguments fix the environment: the
  contract's own address, the native balances, which addresses accept a plain transfer,
  and the two token ledgers.\<close>

definition initialize ::
  "address \<Rightarrow> address \<Rightarrow> address \<Rightarrow> (address \<Rightarrow> nat) \<Rightarrow> (address \<Rightarrow> bool) \<Rightarrow> token \<Rightarrow> token \<Rightarrow> state" where
  "initialize sender selfAddr ep eth acc usdc sonic =
     internal_grantRole sender ADMIN_ROLE sender
       \<lparr>roles = (\<lambda>r a. False), paused = False, entered = False, entryPoint = ep,
        patients = (\<lambda>a. default_Patient), doctors = (\<lambda>a. default_Doctor),
        labTechnicians = (\<lambda>a. default_LabTechnician), pharmacies = (\<lambda>a. default_Pharmacy),
        appointments = (\<lambda>i. default_Appointment), labTestOrders = (\<lambda>i. default_LabTestOrder),
        prescriptions = (\<lambda>i. default_Prescription), aiAnalyses = (\<lambda>i. default_AISymptomAnalysis),
        appointmentCounter = 0, labTestCounter = 0, prescriptionCounter = 0, aiAnalysisCounter = 0,
        events = [], self = selfAddr, ethBalance = eth, acceptsEther = acc,
        usdcToken = usdc, sonicToken = sonic\<rparr>"

section \<open>Operations\<close>

subsection \<open>Modifiers\<close>

text \<open>Modelled from the spec: the authorization check, the pause switch and the non-reentrant
  guard. The modifiers \<^verbatim>\<open>onlyRole\<close>, \<^verbatim>\<open>whenNotPaused\<close> and \<^verbatim>\<open>nonReentrant\<close> come from
  OpenZeppelin's \<^verbatim>\<open>AccessControlUpgradeable\<close>, \<^verbatim>\<open>PausableUpgradeable\<close> and
  \<^verbatim>\<open>ReentrancyGuardUpgradeable\<close>, whose sources are not part of the repository. The contract
  exposes no function that pauses it, so \<open>paused\<close> keeps its initial value.\<close>

definition onlyRole :: "state \<Rightarrow> role \<Rightarrow> address \<Rightarrow> (error + state) \<Rightarrow> error + state" where
  "onlyRole s r sender body = (if hasRole s r sender then body else Inl (MissingRole r sender))"

definition whenNotPaused :: "state \<Rightarrow> (error + state) \<Rightarrow> error + state" where
  "whenNotPaused s body = (if paused s then Inl PausablePaused else body)"

definition nonReentrant :: "state \<Rightarrow> (state \<Rightarrow> error + state) \<Rightarrow> error + state" where
  "nonReentrant s body =
     (if entered s then Inl ReentrantCall
      else (case body (s\<lparr>entered := True\<rparr>) of
              Inl e \<Rightarrow> Inl e
            | Inr s' \<Rightarrow> Inr (s'\<lparr>entered := False\<rparr>)))"

text \<open>A function that is not \<^verbatim>\<open>payable\<close> reverts when value is attached; a \<^verbatim>\<open>payable\<close> one
  starts with the attached value moved from the caller to the contract.\<close>

definition nonPayable :: "nat \<Rightarrow> (error + state) \<Rightarrow> error + state" where
  "nonPayable msg_value body = (if msg_value \<noteq> 0 then Inl NonPayable else body)"

definition acceptValue :: "state \<Rightarrow> address \<Rightarrow> nat \<Rightarrow> error + state" where
  "acceptValue s sender msg_value =
     (if ethBalance s sender < msg_value then Inl CallerBalanceTooLow
      else Inr (s\<lparr>ethBalance := move (ethBalance s) sender (self s) msg_value\<rparr>))"

text \<open>\<^verbatim>\<open>payable(a).transfer(x)\<close>: reverts when the recipient does not accept it.\<close>

definition sendEther :: "state \<Rightarrow> address \<Rightarrow> nat \<Rightarrow> error + state" where
  "sendEther s dst amt =
     (if ethBalance s (self s) < amt \<or> \<not> acceptsEther s dst then Inl EtherTransferFailed
      else Inr (s\<lparr>ethBalance := move (ethBalance s) (self s) dst amt\<rparr>))"

subsection \<open>Internal functions\<close>

definition processPayment :: "state \<Rightarrow> address \<Rightarrow> nat \<Rightarrow> PaymentType \<Rightarrow> uint256 \<Rightarrow> error + state" where
  "processPayment s sender msg_value ptype amount =
     (if ptype = ETH then
        (if msg_value < amount then Inl InsufficientETH
         else if msg_value > amount then sendEther s sender (msg_value - amount)
         else Inr s)
      else if ptype = USDC then
        (case token_transferFrom (usdcToken s) (self s) sender (self s) amount of
           None \<Rightarrow> Inl TokenCallReverted
         | Some (ok, t) \<Rightarrow> if ok then Inr (s\<lparr>usdcToken := t\<rparr>) else Inl USDCTransferFailed)
      else
        (case token_transferFrom (sonicToken s) (self s) sender (self s) amount of
           None \<Rightarrow> Inl TokenCallReverted
         | Some (ok, t) \<Rightarrow> if ok then Inr (s\<lparr>sonicToken := t\<rparr>) else Inl SONICTransferFailed))"

text \<open>The assignment \<^verbatim>\<open>patient.lastRewardTimestamp = block.timestamp\<close> through the storage
  reference \<^verbatim>\<open>patients[_patient]\<close>.\<close>

definition set_lastRewardTimestamp :: "address \<Rightarrow> uint256 \<Rightarrow> state \<Rightarrow> state" where
  "set_lastRewardTimestamp p ts s =
     s\<lparr>patients := (patients s)(p := (patients s p)\<lparr>pat_lastRewardTimestamp := ts\<rparr>)\<rparr>"

text \<open>\<^verbatim>\<open>_monetizeData\<close>: the condition is a short-circuit conjunction, so the checked addition is
  evaluated only when data sharing is enabled; the result of \<^verbatim>\<open>transfer\<close> is not looked at.\<close>

definition monetizeData :: "state \<Rightarrow> uint256 \<Rightarrow> address \<Rightarrow> error + state" where
  "monetizeData s now p =
     (if pat_dataSharing (patients s p) = Enabled then
        (if pat_lastRewardTimestamp (patients s p) + ONE_DAY > UINT256_MAX then Inl Panic
         else if now \<ge> pat_lastRewardTimestamp (patients s p) + ONE_DAY then
           (let s1 = set_lastRewardTimestamp p now s in
            case token_transfer (sonicToken s1) (self s1) p DATA_MONETIZATION_REWARD of
              None \<Rightarrow> Inl TokenCallReverted
            | Some (ok, t) \<Rightarrow>
                Inr (emit (DataRewardClaimed p DATA_MONETIZATION_REWARD) (s1\<lparr>sonicToken := t\<rparr>)))
         else Inr s)
      else Inr s)"

text \<open>\<^verbatim>\<open>patients[msg.sender].gamification.mediPoints += n\<close>, a checked addition on
  \<^verbatim>\<open>uint96\<close>.\<close>

definition add_mediPoints :: "address \<Rightarrow> nat \<Rightarrow> state \<Rightarrow> error + state" where
  "add_mediPoints p n s =
     (if mediPoints (pat_gamification (patients s p)) + n > UINT96_MAX then Inl Panic
      else Inr (s\<lparr>patients := (patients s)(p := (patients s p)
                 \<lparr>pat_gamification := (pat_gamification (patients s p))
                    \<lparr>mediPoints := mediPoints (pat_gamification (patients s p)) + n\<rparr>\<rparr>)\<rparr>))"

subsection \<open>Admin functions\<close>

definition verifyDoctor :: "state \<Rightarrow> address \<Rightarrow> address \<Rightarrow> string \<Rightarrow> uint256 \<Rightarrow> error + state" where
  "verifyDoctor s sender doctor licenseNumber fee =
     onlyRole s ADMIN_ROLE sender
       (Inr (emit (DoctorVerified doctor)
          (internal_grantRole sender DOCTOR_ROLE doctor
             (s\<lparr>doctors := (doctors s)(doctor :=
                 \<lparr>doc_isVerified = True, doc_consultationFee = fee, doc_licenseNumber = licenseNumber\<rparr>)\<rparr>))))"

definition verifyLabTechnician :: "state \<Rightarrow> address \<Rightarrow> address \<Rightarrow> string \<Rightarrow> error + state" where
  "verifyLabTechnician s sender labTech licenseNumber =
     onlyRole s ADMIN_ROLE sender
       (Inr (emit (LabTechnicianVerified labTech)
          (internal_grantRole sender LAB_TECH_ROLE labTech
             (s\<lparr>labTechnicians := (labTechnicians s)(labTech :=
                 \<lparr>tech_isVerified = True, tech_licenseNumber = licenseNumber\<rparr>)\<rparr>))))"

definition registerPharmacy :: "state \<Rightarrow> address \<Rightarrow> address \<Rightarrow> string \<Rightarrow> error + state" where
  "registerPharmacy s sender pharmacy licenseNumber =
     onlyRole s ADMIN_ROLE sender
       (Inr (emit (PharmacyRegistered pharmacy)
          (internal_grantRole sender PHARMACY_ROLE pharmacy
             (s\<lparr>pharmacies := (pharmacies s)(pharmacy :=
                 \<lparr>pharm_isRegistered = True, pharm_licenseNumber = licenseNumber\<rparr>)\<rparr>))))"

text \<open>Modelled from the spec: granting and revoking a role, restricted to the Admin. These
  are the external functions \<^verbatim>\<open>grantRole\<close>, \<^verbatim>\<open>revokeRole\<close> and \<^verbatim>\<open>renounceRole\<close> the
  contract inherits from \<^verbatim>\<open>AccessControlUpgradeable\<close>; \<^verbatim>\<open>initialize\<close> makes \<^verbatim>\<open>ADMIN_ROLE\<close>
  the admin of every role.\<close>

definition grantRole :: "state \<Rightarrow> address \<Rightarrow> role \<Rightarrow> address \<Rightarrow> error + state" where
  "grantRole s sender r a = onlyRole s ADMIN_ROLE sender (Inr (internal_grantRole sender r a s))"

definition revokeRole :: "state \<Rightarrow> address \<Rightarrow> role \<Rightarrow> address \<Rightarrow> error + state" where
  "revokeRole s sender r a = onlyRole s ADMIN_ROLE sender (Inr (internal_revokeRole sender r a s))"

definition renounceRole :: "state \<Rightarrow> address \<Rightarrow> role \<Rightarrow> address \<Rightarrow> error + state" where
  "renounceRole s sender r a =
     (if a \<noteq> sender then Inl RenounceNotSelf else Inr (internal_revokeRole sender r a s))"

subsection \<open>Patient functions\<close>

definition registerPatient :: "state \<Rightarrow> address \<Rightarrow> string \<Rightarrow> error + state" where
  "registerPatient s sender encryptedSymmetricKey =
     whenNotPaused s
       (if pat_isRegistered (patients s sender) then Inl AlreadyRegistered
        else Inr (emit (PatientRegistered sender)
          (internal_grantRole sender PATIENT_ROLE sender
             (s\<lparr>patients := (patients s)(sender :=
                 \<lparr>pat_isRegistered = True, pat_encryptedSymmetricKey = encryptedSymmetricKey,
                  pat_medicalHistoryHash = 0,
                  pat_gamification = \<lparr>mediPoints = 0, currentLevel = 1\<rparr>,
                  pat_dataSharing = Disabled, pat_lastRewardTimestamp = 0\<rparr>)\<rparr>))))"

definition bookAppointment ::
  "state \<Rightarrow> address \<Rightarrow> nat \<Rightarrow> uint256 \<Rightarrow> address \<Rightarrow> 48 word \<Rightarrow> PaymentType \<Rightarrow> bool \<Rightarrow> string
     \<Rightarrow> error + state" where
  "bookAppointment s sender msg_value now doctor timestamp ptype isVideoCall videoCallLink =
     (case acceptValue s sender msg_value of
        Inl e \<Rightarrow> Inl e
      | Inr s0 \<Rightarrow>
          onlyRole s0 PATIENT_ROLE sender (nonReentrant s0 (\<lambda>s1.
            if \<not> doc_isVerified (doctors s1 doctor) then Inl DoctorNotVerified
            else if now + MIN_BOOKING_BUFFER > UINT256_MAX then Inl Panic
            else if \<not> (unat timestamp > now + MIN_BOOKING_BUFFER) then Inl TooSoon
            else
              (let fee = doc_consultationFee (doctors s1 doctor) in
               case processPayment s1 sender msg_value ptype fee of
                 Inl e \<Rightarrow> Inl e
               | Inr s2 \<Rightarrow>
                   if appointmentCounter s2 + 1 > UINT256_MAX then Inl Panic
                   else
                     (let s3 = s2\<lparr>appointmentCounter := appointmentCounter s2 + 1\<rparr>;
                          s4 = s3\<lparr>appointments := (appointments s3)(appointmentCounter s3 :=
                                 \<lparr>apt_id = appointmentCounter s3, apt_patient = sender,
                                  apt_doctor = doctor, apt_scheduledTimestamp = unat timestamp,
                                  apt_status = Pending, apt_fee = fee, apt_paymentType = ptype,
                                  apt_videoCallLink = (if isVideoCall then videoCallLink else []),
                                  apt_isVideoCall = isVideoCall\<rparr>)\<rparr>
                      in case add_mediPoints sender 20 s4 of
                           Inl e \<Rightarrow> Inl e
                         | Inr s5 \<Rightarrow> Inr (emit (AppointmentBooked (appointmentCounter s5) sender) s5))))))"

definition requestAISymptomAnalysis :: "state \<Rightarrow> address \<Rightarrow> uint256 \<Rightarrow> string \<Rightarrow> error + state" where
  "requestAISymptomAnalysis s sender now symptoms =
     onlyRole s PATIENT_ROLE sender
       (if aiAnalysisCounter s + 1 > UINT256_MAX then Inl Panic
        else
          (let s1 = s\<lparr>aiAnalysisCounter := aiAnalysisCounter s + 1\<rparr>;
               s2 = s1\<lparr>aiAnalyses := (aiAnalyses s1)(aiAnalysisCounter s1 :=
                      \<lparr>ai_id = aiAnalysisCounter s1, ai_patient = sender, ai_symptoms = symptoms,
                       ai_analysisIpfsHash = [], ai_doctorReviewed = False\<rparr>)\<rparr>
           in case add_mediPoints sender 10 s2 of
                Inl e \<Rightarrow> Inl e
              | Inr s3 \<Rightarrow>
                  monetizeData (emit (AISymptomAnalyzed (aiAnalysisCounter s3) sender) s3) now sender))"

subsection \<open>Data monetization functions\<close>

definition toggleDataMonetization :: "state \<Rightarrow> address \<Rightarrow> bool \<Rightarrow> error + state" where
  "toggleDataMonetization s sender enable =
     onlyRole s PATIENT_ROLE sender
       (if \<not> pat_isRegistered (patients s sender) then Inl NotRegistered
        else Inr (emit (DataMonetizationOptIn sender enable)
          (s\<lparr>patients := (patients s)(sender := (patients s sender)
               \<lparr>pat_dataSharing := (if enable then Enabled else Disabled)\<rparr>)\<rparr>)))"

definition claimDataReward :: "state \<Rightarrow> address \<Rightarrow> uint256 \<Rightarrow> error + state" where
  "claimDataReward s sender now =
     onlyRole s PATIENT_ROLE sender (nonReentrant s (\<lambda>s0.
       if pat_dataSharing (patients s0 sender) \<noteq> Enabled then Inl DataSharingNotEnabled
       else if pat_lastRewardTimestamp (patients s0 sender) + ONE_DAY > UINT256_MAX then Inl Panic
       else if \<not> (now \<ge> pat_lastRewardTimestamp (patients s0 sender) + ONE_DAY)
         then Inl RewardNotYetAvailable
       else if \<not> (balanceOf (sonicToken s0) (self s0) \<ge> DATA_MONETIZATION_REWARD)
         then Inl InsufficientSONICTokens
       else
         (let s1 = set_lastRewardTimestamp sender now s0 in
          case token_transfer (sonicToken s1) (self s1) sender DATA_MONETIZATION_REWARD of
            None \<Rightarrow> Inl TokenCallReverted
          | Some (ok, t) \<Rightarrow>
              Inr (emit (DataRewardClaimed sender DATA_MONETIZATION_REWARD) (s1\<lparr>sonicToken := t\<rparr>)))))"

subsection \<open>Doctor functions\<close>

definition confirmAppointment :: "state \<Rightarrow> address \<Rightarrow> uint256 \<Rightarrow> error + state" where
  "confirmAppointment s sender appointmentId =
     onlyRole s DOCTOR_ROLE sender
       (if apt_doctor (appointments s appointmentId) \<noteq> sender then Inl NotYourAppointment
        else if apt_status (appointments s appointmentId) \<noteq> Pending then Inl NotPending
        else
          (let s1 = s\<lparr>appointments := (appointments s)(appointmentId :=
                      (appointments s appointmentId)\<lparr>apt_status := Confirmed\<rparr>)\<rparr>
           in if apt_isVideoCall (appointments s1 appointmentId)
              then Inr (emit (VideoCallStarted appointmentId
                               (apt_videoCallLink (appointments s1 appointmentId))) s1)
              else Inr s1))"

definition orderLabTest :: "state \<Rightarrow> address \<Rightarrow> uint256 \<Rightarrow> address \<Rightarrow> string \<Rightarrow> error + state" where
  "orderLabTest s sender now patient testType =
     onlyRole s DOCTOR_ROLE sender
       (if \<not> pat_isRegistered (patients s patient) then Inl PatientNotRegistered
        else if labTestCounter s + 1 > UINT256_MAX then Inl Panic
        else
          (let s1 = s\<lparr>labTestCounter := labTestCounter s + 1\<rparr>;
               s2 = s1\<lparr>labTestOrders := (labTestOrders s1)(labTestCounter s1 :=
                      \<lparr>lab_id = labTestCounter s1, lab_patient = patient, lab_doctor = sender,
                       lab_labTech = 0, lab_status = Requested, lab_testType = testType,
                       lab_sampleCollectionIpfsHash = [], lab_resultsIpfsHash = [],
                       lab_orderedTimestamp = uint48 now, lab_completedTimestamp = 0\<rparr>)\<rparr>
           in monetizeData (emit (LabTestOrdered (labTestCounter s2) patient) s2) now patient))"

text \<open>\<^verbatim>\<open>reviewLabResults\<close>: the commitment is \<^verbatim>\<open>keccak256(abi.encodePacked(prescriptionCounter,
  msg.sender, block.timestamp))\<close>. The parameter \<open>H\<close> is \<^verbatim>\<open>keccak256\<close> of the packed encoding of
  a list of values (the three values have fixed widths, so the list determines the bytes).\<close>

definition reviewLabResults ::
  "(nat list \<Rightarrow> bytes32) \<Rightarrow> state \<Rightarrow> address \<Rightarrow> uint256 \<Rightarrow> uint256 \<Rightarrow> string \<Rightarrow> string
     \<Rightarrow> error + state" where
  "reviewLabResults H s sender now labTestId medicationDetails prescriptionIpfsHash =
     onlyRole s DOCTOR_ROLE sender
       (if lab_doctor (labTestOrders s labTestId) \<noteq> sender then Inl NotYourOrder
        else if lab_status (labTestOrders s labTestId) \<noteq> ResultsUploaded then Inl ResultsNotUploaded
        else
          (let s1 = s\<lparr>labTestOrders := (labTestOrders s)(labTestId :=
                      (labTestOrders s labTestId)\<lparr>lab_status := Reviewed\<rparr>)\<rparr>;
               s2 = s1\<lparr>labTestOrders := (labTestOrders s1)(labTestId :=
                      (labTestOrders s1 labTestId)\<lparr>lab_completedTimestamp := uint48 now\<rparr>)\<rparr>
           in if prescriptionCounter s2 + 1 > UINT256_MAX then Inl Panic
              else
                (let s3 = s2\<lparr>prescriptionCounter := prescriptionCounter s2 + 1\<rparr>;
                     verificationCodeHash = H [prescriptionCounter s3, sender, now]
                 in if now + THIRTY_DAYS > UINT256_MAX then Inl Panic
                    else
                      (let s4 = s3\<lparr>prescriptions := (prescriptions s3)(prescriptionCounter s3 :=
                                  \<lparr>rx_id = prescriptionCounter s3,
                                   rx_patient = lab_patient (labTestOrders s3 labTestId),
                                   rx_doctor = sender,
                                   rx_verificationCodeHash = verificationCodeHash,
                                   rx_medicationDetails = medicationDetails,
                                   rx_prescriptionIpfsHash = prescriptionIpfsHash,
                                   rx_status = Generated, rx_pharmacy = 0,
                                   rx_generatedTimestamp = uint48 now,
                                   rx_expirationTimestamp = uint48 (now + THIRTY_DAYS)\<rparr>)\<rparr>
                       in monetizeData
                            (emit (PrescriptionGenerated (prescriptionCounter s4)
                                     (lab_patient (labTestOrders s4 labTestId))) s4)
                            now (lab_patient (labTestOrders s4 labTestId))))))"

definition reviewAISymptomAnalysis :: "state \<Rightarrow> address \<Rightarrow> uint256 \<Rightarrow> string \<Rightarrow> error + state" where
  "reviewAISymptomAnalysis s sender aiAnalysisId analysisIpfsHash =
     onlyRole s DOCTOR_ROLE sender
       (if ai_doctorReviewed (aiAnalyses s aiAnalysisId) then Inl AlreadyReviewed
        else Inr (s\<lparr>aiAnalyses := (aiAnalyses s)(aiAnalysisId := (aiAnalyses s aiAnalysisId)
                    \<lparr>ai_analysisIpfsHash := analysisIpfsHash, ai_doctorReviewed := True\<rparr>)\<rparr>))"

subsection \<open>Lab technician functions\<close>

definition collectSample :: "state \<Rightarrow> address \<Rightarrow> uint256 \<Rightarrow> string \<Rightarrow> error + state" where
  "collectSample s sender labTestId ipfsHash =
     onlyRole s LAB_TECH_ROLE sender
       (if lab_status (labTestOrders s labTestId) \<noteq> Requested then Inl InvalidStatus
        else Inr (s\<lparr>labTestOrders := (labTestOrders s)(labTestId := (labTestOrders s labTestId)
                    \<lparr>lab_labTech := sender, lab_sampleCollectionIpfsHash := ipfsHash,
                     lab_status := Collected\<rparr>)\<rparr>))"

definition uploadLabResults :: "state \<Rightarrow> address \<Rightarrow> uint256 \<Rightarrow> uint256 \<Rightarrow> string \<Rightarrow> error + state" where
  "uploadLabResults s sender now labTestId resultsIpfsHash =
     onlyRole s LAB_TECH_ROLE sender
       (if lab_labTech (labTestOrders s labTestId) \<noteq> sender then Inl NotYourOrder
        else if lab_status (labTestOrders s labTestId) \<noteq> Collected then Inl SampleNotCollected
        else
          (let s1 = s\<lparr>labTestOrders := (labTestOrders s)(labTestId := (labTestOrders s labTestId)
                      \<lparr>lab_resultsIpfsHash := resultsIpfsHash, lab_status := ResultsUploaded\<rparr>)\<rparr>
           in monetizeData (emit (LabTestResultsUploaded labTestId resultsIpfsHash) s1)
                now (lab_patient (labTestOrders s1 labTestId))))"

subsection \<open>Pharmacy functions\<close>

definition verifyPrescription :: "state \<Rightarrow> address \<Rightarrow> uint256 \<Rightarrow> bytes32 \<Rightarrow> error + state" where
  "verifyPrescription s sender prescriptionId verificationCodeHash =
     onlyRole s PHARMACY_ROLE sender
       (if rx_status (prescriptions s prescriptionId) \<noteq> Generated then Inl InvalidStatus
        else if rx_verificationCodeHash (prescriptions s prescriptionId) \<noteq> verificationCodeHash
          then Inl InvalidCode
        else Inr (emit (PrescriptionVerified prescriptionId sender)
          (s\<lparr>prescriptions := (prescriptions s)(prescriptionId := (prescriptions s prescriptionId)
               \<lparr>rx_status := Verified, rx_pharmacy := sender\<rparr>)\<rparr>)))"

definition fulfillPrescription :: "state \<Rightarrow> address \<Rightarrow> uint256 \<Rightarrow> uint256 \<Rightarrow> error + state" where
  "fulfillPrescription s sender now prescriptionId =
     onlyRole s PHARMACY_ROLE sender
       (if rx_pharmacy (prescriptions s prescriptionId) \<noteq> sender then Inl NotYourPrescription
        else if rx_status (prescriptions s prescriptionId) \<noteq> Verified then Inl NotVerified
        else if \<not> (now \<le> rx_expirationTimestamp (prescriptions s prescriptionId)) then Inl Expired
        else Inr (emit (PrescriptionFulfilled prescriptionId sender)
          (s\<lparr>prescriptions := (prescriptions s)(prescriptionId := (prescriptions s prescriptionId)
               \<lparr>rx_status := Fulfilled\<rparr>)\<rparr>)))"

section \<open>Calls and reachable states\<close>

text \<open>An external call of the contract. \<open>HandleUserOp\<close> carries the declared sender of the
  user operation, the call its \<^verbatim>\<open>callData\<close> decodes to, and whether the entry point's
  \<^verbatim>\<open>handleOps\<close> returns.\<close>

datatype call =
    VerifyDoctor address string uint256
  | VerifyLabTechnician address string
  | RegisterPharmacy address string
  | GrantRole role address
  | RevokeRole role address
  | RenounceRole role address
  | RegisterPatient string
  | BookAppointment address "48 word" PaymentType bool string
  | RequestAISymptomAnalysis string
  | ToggleDataMonetization bool
  | ClaimDataReward
  | HandleUserOp address call bool
  | ConfirmAppointment uint256
  | OrderLabTest address string
  | ReviewLabResults uint256 string string
  | ReviewAISymptomAnalysis uint256 string
  | CollectSample uint256 string
  | UploadLabResults uint256 string
  | VerifyPrescription uint256 bytes32
  | FulfillPrescription uint256

text \<open>\<open>exec H s sender msg_value now c\<close>: the call \<open>c\<close> from \<open>sender\<close> with \<open>msg_value\<close>
  attached, in a block with timestamp \<open>now\<close>. \<^verbatim>\<open>handleUserOp\<close> calls the contract itself
  (\<^verbatim>\<open>address(this).call\<close>): the inner call's sender is the contract, with no value.\<close>

fun exec ::
  "(nat list \<Rightarrow> bytes32) \<Rightarrow> state \<Rightarrow> address \<Rightarrow> nat \<Rightarrow> uint256 \<Rightarrow> call \<Rightarrow> error + state" where
  "exec H s sender v now (VerifyDoctor d l f) = nonPayable v (verifyDoctor s sender d l f)"
| "exec H s sender v now (VerifyLabTechnician t l) = nonPayable v (verifyLabTechnician s sender t l)"
| "exec H s sender v now (RegisterPharmacy p l) = nonPayable v (registerPharmacy s sender p l)"
| "exec H s sender v now (GrantRole r a) = nonPayable v (grantRole s sender r a)"
| "exec H s sender v now (RevokeRole r a) = nonPayable v (revokeRole s sender r a)"
| "exec H s sender v now (RenounceRole r a) = nonPayable v (renounceRole s sender r a)"
| "exec H s sender v now (RegisterPatient k) = nonPayable v (registerPatient s sender k)"
| "exec H s sender v now (BookAppointment d ts pt iv link) = bookAppointment s sender v now d ts pt iv link"
| "exec H s sender v now (RequestAISymptomAnalysis sy) = nonPayable v (requestAISymptomAnalysis s sender now sy)"
| "exec H s sender v now (ToggleDataMonetization en) = nonPayable v (toggleDataMonetization s sender en)"
| "exec H s sender v now ClaimDataReward = nonPayable v (claimDataReward s sender now)"
| "exec H s sender v now (HandleUserOp opSender inner handleOpsReturns) =
     nonPayable v
       (if sender \<noteq> entryPoint s then Inl OnlyEntryPointAllowed
        else if \<not> (opSender = sender \<or> hasRole s PATIENT_ROLE opSender) then Inl InvalidSender
        else (case exec H s (self s) 0 now inner of
                Inl e \<Rightarrow> Inl UserOperationFailed
              | Inr s' \<Rightarrow> if handleOpsReturns then Inr s' else Inl EntryPointCallReverted))"
| "exec H s sender v now (ConfirmAppointment i) = nonPayable v (confirmAppointment s sender i)"
| "exec H s sender v now (OrderLabTest p tt) = nonPayable v (orderLabTest s sender now p tt)"
| "exec H s sender v now (ReviewLabResults i m h) = nonPayable v (reviewLabResults H s sender now i m h)"
| "exec H s sender v now (ReviewAISymptomAnalysis i h) = nonPayable v (reviewAISymptomAnalysis s sender i h)"
| "exec H s sender v now (CollectSample i h) = nonPayable v (collectSample s sender i h)"
| "exec H s sender v now (UploadLabResults i h) = nonPayable v (uploadLabResults s sender now i h)"
| "exec H s sender v now (VerifyPrescription i h) = nonPayable v (verifyPrescription s sender i h)"
| "exec H s sender v now (FulfillPrescription i) = nonPayable v (fulfillPrescription s sender now i)"

text \<open>The states of a deployed contract: the initialised one, closed under successful calls
  and under any change of the environment (balances and token ledgers move without the
  contract).\<close>

inductive reachable :: "(nat list \<Rightarrow> bytes32) \<Rightarrow> state \<Rightarrow> bool"
  for H :: "nat list \<Rightarrow> bytes32" where
  reach_init: "reachable H (initialize deployer selfAddr ep eth acc usdc sonic)"
| reach_call: "reachable H s \<Longrightarrow> exec H s sender v now c = Inr s' \<Longrightarrow> reachable H s'"
| reach_env: "reachable H s \<Longrightarrow>
     reachable H (s\<lparr>ethBalance := eth, acceptsEther := acc, usdcToken := usdc, sonicToken := sonic\<rparr>)"

text \<open>A sequence of calls, each in its own transaction; it stops at the first revert.\<close>

fun run ::
  "(nat list \<Rightarrow> bytes32) \<Rightarrow> state \<Rightarrow> (address \<times> nat \<times> uint256 \<times> call) list \<Rightarrow> error + state" where
  "run H s [] = Inr s"
| "run H s ((sender, v, now, c) # cs) =
     (case exec H s sender v now c of Inl e \<Rightarrow> Inl e | Inr s' \<Rightarrow> run H s' cs)"

text \<open>\<open>reaches H s s'\<close>: the state \<open>s'\<close> comes after \<open>s\<close>, by successful calls and changes of
  the environment.\<close>

inductive reaches :: "(nat list \<Rightarrow> bytes32) \<Rightarrow> state \<Rightarrow> state \<Rightarrow> bool"
  for H :: "nat list \<Rightarrow> bytes32" where
  reaches_refl: "reaches H s s"
| reaches_call: "reaches H s s1 \<Longrightarrow> exec H s1 sender v now c = Inr s2 \<Longrightarrow> reaches H s s2"
| reaches_env: "reaches H s s1 \<Longrightarrow>
     reaches H s (s1\<lparr>ethBalance := eth, acceptsEther := acc, usdcToken := usdc, sonicToken := sonic\<rparr>)"

section \<open>The transition graphs of the specification\<close>

text \<open>The lab-test chain as the specification draws it: Requested, Collected,
  ResultsUploaded, Reviewed, one edge between neighbours.\<close>

fun spec_lab_edge :: "LabTestStatus \<Rightarrow> LabTestStatus \<Rightarrow> bool" where
  "spec_lab_edge Requested Collected = True"
| "spec_lab_edge Collected ResultsUploaded = True"
| "spec_lab_edge ResultsUploaded Reviewed = True"
| "spec_lab_edge a b = False"

fun lab_rank :: "LabTestStatus \<Rightarrow> nat" where
  "lab_rank Requested = 0"
| "lab_rank Collected = 1"
| "lab_rank ResultsUploaded = 2"
| "lab_rank Reviewed = 3"

text \<open>An identifier no creating call has produced yet: a \<^verbatim>\<open>uint256\<close> that is zero or above
  the counter.\<close>

definition never_created :: "uint256 \<Rightarrow> uint256 \<Rightarrow> bool" where
  "never_created counter i = (i \<le> UINT256_MAX \<and> (i = 0 \<or> counter < i))"

section \<open>Example deployment\<close>

text \<open>A stand-in for \<^verbatim>\<open>keccak256\<close> in the examples (the real function is not computed
  here): any function of the encoded values will do for them.\<close>

definition stand_in_hash :: "nat list \<Rightarrow> bytes32" where
  "stand_in_hash xs = (sum_list xs + 1) mod 2 ^ 256"

definition ex_usdc :: token where
  "ex_usdc = \<lparr>balanceOf = (\<lambda>a. 0), allowance = (\<lambda>a b. 0), revertsOnFailure = True\<rparr>"

text \<open>The reward token with the treasury funded as the deployment script does (100 tokens
  at the contract's address 500), and with an empty treasury; both revert on a transfer they
  cannot cover, as OpenZeppelin's ERC20 does. The third returns \<^verbatim>\<open>false\<close> instead.\<close>

definition ex_sonic_funded :: token where
  "ex_sonic_funded = \<lparr>balanceOf = (\<lambda>a. if a = 500 then 100 * 10 ^ 18 else 0),
     allowance = (\<lambda>a b. 0), revertsOnFailure = True\<rparr>"

definition ex_sonic_empty :: token where
  "ex_sonic_empty = \<lparr>balanceOf = (\<lambda>a. 0), allowance = (\<lambda>a b. 0), revertsOnFailure = True\<rparr>"

definition ex_sonic_empty_quiet :: token where
  "ex_sonic_empty_quiet = \<lparr>balanceOf = (\<lambda>a. 0), allowance = (\<lambda>a b. 0), revertsOnFailure = False\<rparr>"

text \<open>Deployer and admin 100, contract address 500, entry point 600; the patient 1 holds
  native currency, every address accepts a plain transfer.\<close>

definition ex_deploy :: "token \<Rightarrow> state" where
  "ex_deploy sonic =
     initialize 100 500 600 (\<lambda>a. if a = 1 then 10 ^ 18 else 0) (\<lambda>a. True) ex_usdc sonic"

text \<open>The admin verifies doctor 2 (fee 7), lab technician 3 and pharmacy 4; patient 1
  registers.\<close>

definition ex_setup :: "(address \<times> nat \<times> uint256 \<times> call) list" where
  "ex_setup =
     [(100, 0, 1000000, VerifyDoctor 2 ''DOC123'' 7),
      (100, 0, 1000000, VerifyLabTechnician 3 ''LAB123''),
      (100, 0, 1000000, RegisterPharmacy 4 ''PHARM123''),
      (1, 0, 1000000, RegisterPatient ''encryptedKey123'')]"

text \<open>The deployment after \<open>ex_setup\<close>.\<close>

definition ex_ready :: state where
  "ex_ready = commit (ex_deploy ex_sonic_funded) (run stand_in_hash (ex_deploy ex_sonic_funded) ex_setup)"

text \<open>The lab workflow on the example deployment: doctor 2 orders a test for patient 1,
  technician 3 collects the sample and uploads the results, the doctor reviews them (which
  generates prescription 1), pharmacy 4 verifies the prescription.\<close>

definition ex_lab_ordered :: state where
  "ex_lab_ordered = commit ex_ready (exec stand_in_hash ex_ready 2 0 1000100 (OrderLabTest 1 ''blood''))"

definition ex_lab_collected :: state where
  "ex_lab_collected =
     commit ex_lab_ordered (exec stand_in_hash ex_lab_ordered 3 0 1000200 (CollectSample 1 ''QmSample''))"

definition ex_lab_uploaded :: state where
  "ex_lab_uploaded =
     commit ex_lab_collected
       (exec stand_in_hash ex_lab_collected 3 0 1000300 (UploadLabResults 1 ''QmResults''))"

definition ex_rx_generated :: state where
  "ex_rx_generated =
     commit ex_lab_uploaded
       (exec stand_in_hash ex_lab_uploaded 2 0 1000400 (ReviewLabResults 1 ''medication'' ''QmRx''))"

definition ex_rx_verified :: state where
  "ex_rx_verified =
     commit ex_rx_generated
       (exec stand_in_hash ex_rx_generated 4 0 1000500 (VerifyPrescription 1 1000404))"

text \<open>Patient 1 opts in to data sharing, in the block of the registration. In the second
  state the treasury holds no reward tokens and the token reverts; in the third it holds
  none and the token returns \<^verbatim>\<open>false\<close>.\<close>

definition ex_sharing :: state where
  "ex_sharing = commit ex_ready (exec stand_in_hash ex_ready 1 0 1000000 (ToggleDataMonetization True))"

definition ex_sharing_drained :: state where
  "ex_sharing_drained = ex_sharing\<lparr>sonicToken := ex_sonic_empty\<rparr>"

definition ex_sharing_quiet :: state where
  "ex_sharing_quiet = ex_sharing\<lparr>sonicToken := ex_sonic_empty_quiet\<rparr>"

text \<open>Pharmacy 4 verifies the prescription identifier 1 and technician 3 collects a sample for the
  lab test identifier 1 while no prescription and no lab test exist.\<close>

definition ex_phantom_rx :: state where
  "ex_phantom_rx = commit ex_ready (exec stand_in_hash ex_ready 4 0 1000100 (VerifyPrescription 1 0))"

definition ex_phantom_lab :: state where
  "ex_phantom_lab =
     commit ex_ready (exec stand_in_hash ex_ready 3 0 1000100 (CollectSample 1 ''QmSample''))"

section \<open>Unfolding rules\<close>

lemmas modifier_defs = onlyRole_def whenNotPaused_def nonReentrant_def nonPayable_def

lemmas helper_defs = hasRole_def emit_def internal_grantRole_def internal_revokeRole_def
  acceptValue_def sendEther_def processPayment_def set_lastRewardTimestamp_def monetizeData_def
  add_mediPoints_def token_transfer_def token_transferFrom_def move_def

lemmas op_defs = verifyDoctor_def verifyLabTechnician_def registerPharmacy_def grantRole_def
  revokeRole_def renounceRole_def registerPatient_def bookAppointment_def
  requestAISymptomAnalysis_def toggleDataMonetization_def claimDataReward_def
  confirmAppointment_def orderLabTest_def reviewLabResults_def reviewAISymptomAnalysis_def
  collectSample_def uploadLabResults_def verifyPrescription_def fulfillPrescription_def

lemmas const_defs = UINT256_MAX_def UINT96_MAX_def ADDRESS_MAX_def ONE_DAY_def THIRTY_DAYS_def
  MIN_BOOKING_BUFFER_def DATA_MONETIZATION_REWARD_def uint48_def

lemmas default_defs = default_Patient_def default_Doctor_def default_LabTechnician_def
  default_Pharmacy_def default_Appointment_def default_LabTestOrder_def
  default_Prescription_def default_AISymptomAnalysis_def

lemmas ex_defs = ex_deploy_def ex_setup_def ex_usdc_def ex_sonic_funded_def ex_sonic_empty_def
  ex_sonic_empty_quiet_def stand_in_hash_def initialize_def

lemmas step_defs = modifier_defs helper_defs op_defs default_defs const_defs commit_def Let_def

section \<open>What every call preserves\<close>

lemma exec_paused: "exec H s sender v now c = Inr s' \<Longrightarrow> paused s' = paused s"
  by (induction c arbitrary: s sender v s')
     (auto simp: modifier_defs helper_defs op_defs Let_def
           split: if_splits sum.splits option.splits prod.splits)

lemma exec_registered:
  "exec H s sender v now c = Inr s' \<Longrightarrow> pat_isRegistered (patients s a)
     \<Longrightarrow> pat_isRegistered (patients s' a)"
  by (induction c arbitrary: s sender v s')
     (auto simp: modifier_defs helper_defs op_defs Let_def
           split: if_splits sum.splits option.splits prod.splits)

lemma reaches_paused: "reaches H s s' \<Longrightarrow> paused s' = paused s"
  by (induction rule: reaches.induct) (auto dest: exec_paused)

lemma reaches_registered:
  "reaches H s s' \<Longrightarrow> pat_isRegistered (patients s a) \<Longrightarrow> pat_isRegistered (patients s' a)"
  by (induction rule: reaches.induct) (auto dest: exec_registered)

lemma reaches_trans: "reaches H s1 s2 \<Longrightarrow> reaches H s s1 \<Longrightarrow> reaches H s s2"
  by (induction rule: reaches.induct) (auto intro: reaches.intros)

lemma run_reaches: "run H s cs = Inr s' \<Longrightarrow> reaches H s s'"
proof (induction cs arbitrary: s)
  case Nil
  then show ?case by (simp add: reaches_refl)
next
  case (Cons x cs)
  obtain sender v now c where x: "x = (sender, v, now, c)" by (cases x) auto
  from Cons.prems x obtain s1 where e: "exec H s sender v now c = Inr s1"
    and r: "run H s1 cs = Inr s'"
    by (auto split: sum.splits)
  have "reaches H s1 s'" using Cons.IH r by blast
  moreover have "reaches H s s1" using reaches_call [OF reaches_refl e] .
  ultimately show ?case by (rule reaches_trans)
qed

lemma reachable_reaches: "reaches H s s' \<Longrightarrow> reachable H s \<Longrightarrow> reachable H s'"
  by (induction rule: reaches.induct) (auto intro: reachable.intros)

subsection \<open>Lab test orders\<close>

lemma exec_lab_status:
  "exec H s sender v now c = Inr s' \<Longrightarrow> i \<le> labTestCounter s \<Longrightarrow>
     lab_status (labTestOrders s' i) = lab_status (labTestOrders s i)
     \<or> spec_lab_edge (lab_status (labTestOrders s i)) (lab_status (labTestOrders s' i))"
  by (induction c arbitrary: s sender v s')
     (auto simp: modifier_defs helper_defs op_defs Let_def
           split: if_splits sum.splits option.splits prod.splits)

lemma exec_labTestCounter:
  "exec H s sender v now c = Inr s' \<Longrightarrow> labTestCounter s \<le> labTestCounter s'"
  by (induction c arbitrary: s sender v s')
     (auto simp: modifier_defs helper_defs op_defs Let_def
           split: if_splits sum.splits option.splits prod.splits)

lemma spec_lab_edge_rank: "spec_lab_edge a b \<Longrightarrow> lab_rank b = Suc (lab_rank a)"
  by (cases a; cases b) auto

lemma reaches_lab_rank:
  "reaches H s s' \<Longrightarrow> i \<le> labTestCounter s \<Longrightarrow>
     labTestCounter s \<le> labTestCounter s'
     \<and> lab_rank (lab_status (labTestOrders s i)) \<le> lab_rank (lab_status (labTestOrders s' i))"
proof (induction rule: reaches.induct)
  case (reaches_refl s)
  then show ?case by simp
next
  case (reaches_call s s1 sender v now c s2)
  then have le: "labTestCounter s \<le> labTestCounter s1"
    and rk: "lab_rank (lab_status (labTestOrders s i)) \<le> lab_rank (lab_status (labTestOrders s1 i))"
    by auto
  from le reaches_call.prems have i1: "i \<le> labTestCounter s1" by simp
  from exec_lab_status [OF reaches_call.hyps(2) i1]
  have "lab_rank (lab_status (labTestOrders s1 i)) \<le> lab_rank (lab_status (labTestOrders s2 i))"
    by (auto dest: spec_lab_edge_rank)
  moreover from exec_labTestCounter [OF reaches_call.hyps(2)]
  have "labTestCounter s1 \<le> labTestCounter s2" .
  ultimately show ?case using le rk by simp
next
  case (reaches_env s s1 eth acc usdc sonic)
  then show ?case by simp
qed

lemma exec_requested_unassigned:
  "exec H s sender v now c = Inr s' \<Longrightarrow>
     (\<forall>i. lab_status (labTestOrders s i) = Requested \<longrightarrow> lab_labTech (labTestOrders s i) = 0) \<Longrightarrow>
     lab_status (labTestOrders s' j) = Requested \<Longrightarrow> lab_labTech (labTestOrders s' j) = 0"
  by (induction c arbitrary: s sender v s')
     (auto simp: modifier_defs helper_defs op_defs Let_def
           split: if_splits sum.splits option.splits prod.splits)

lemma reachable_requested_unassigned:
  "reachable H s \<Longrightarrow>
     \<forall>i. lab_status (labTestOrders s i) = Requested \<longrightarrow> lab_labTech (labTestOrders s i) = 0"
proof (induction rule: reachable.induct)
  case (reach_init deployer selfAddr ep eth acc usdc sonic)
  then show ?case
    by (simp add: initialize_def internal_grantRole_def hasRole_def emit_def default_LabTestOrder_def)
next
  case (reach_call s sender v now c s')
  then show ?case using exec_requested_unassigned by blast
next
  case (reach_env s eth acc usdc sonic)
  then show ?case by simp
qed

lemma uploadLabResults_on_requested:
  "lab_status (labTestOrders s i) = Requested \<Longrightarrow>
     uploadLabResults s sender now i r =
       Inl (if \<not> hasRole s LAB_TECH_ROLE sender then MissingRole LAB_TECH_ROLE sender
            else if lab_labTech (labTestOrders s i) \<noteq> sender then NotYourOrder
            else SampleNotCollected)"
  by (simp add: uploadLabResults_def onlyRole_def)

section \<open>The example deployment, evaluated\<close>

text \<open>Each example state in closed form, the later ones as updates of the earlier ones.\<close>

lemma ex_ready_eq:
  "ex_ready =
     \<lparr>roles = (\<lambda>r a. False)
        (ADMIN_ROLE := (\<lambda>a. False)(100 := True), DOCTOR_ROLE := (\<lambda>a. False)(2 := True),
         LAB_TECH_ROLE := (\<lambda>a. False)(3 := True), PHARMACY_ROLE := (\<lambda>a. False)(4 := True),
         PATIENT_ROLE := (\<lambda>a. False)(1 := True)),
      paused = False, entered = False, entryPoint = 600,
      patients = (\<lambda>a. default_Patient)
        (1 := \<lparr>pat_isRegistered = True, pat_encryptedSymmetricKey = ''encryptedKey123'',
               pat_medicalHistoryHash = 0, pat_gamification = \<lparr>mediPoints = 0, currentLevel = 1\<rparr>,
               pat_dataSharing = Disabled, pat_lastRewardTimestamp = 0\<rparr>),
      doctors = (\<lambda>a. default_Doctor)
        (2 := \<lparr>doc_isVerified = True, doc_consultationFee = 7, doc_licenseNumber = ''DOC123''\<rparr>),
      labTechnicians = (\<lambda>a. default_LabTechnician)
        (3 := \<lparr>tech_isVerified = True, tech_licenseNumber = ''LAB123''\<rparr>),
      pharmacies = (\<lambda>a. default_Pharmacy)
        (4 := \<lparr>pharm_isRegistered = True, pharm_licenseNumber = ''PHARM123''\<rparr>),
      appointments = (\<lambda>i. default_Appointment), labTestOrders = (\<lambda>i. default_LabTestOrder),
      prescriptions = (\<lambda>i. default_Prescription), aiAnalyses = (\<lambda>i. default_AISymptomAnalysis),
      appointmentCounter = 0, labTestCounter = 0, prescriptionCounter = 0, aiAnalysisCounter = 0,
      events = [RoleGranted ADMIN_ROLE 100 100, RoleGranted DOCTOR_ROLE 2 100, DoctorVerified 2,
                RoleGranted LAB_TECH_ROLE 3 100, LabTechnicianVerified 3,
                RoleGranted PHARMACY_ROLE 4 100, PharmacyRegistered 4,
                RoleGranted PATIENT_ROLE 1 1, PatientRegistered 1],
      self = 500, ethBalance = (\<lambda>a. if a = 1 then 10 ^ 18 else 0), acceptsEther = (\<lambda>a. True),
      usdcToken = ex_usdc, sonicToken = ex_sonic_funded\<rparr>"
  by (simp add: ex_ready_def ex_defs step_defs)

lemma run_ex_setup: "run H (ex_deploy ex_sonic_funded) ex_setup = Inr ex_ready"
  by (simp add: ex_ready_eq ex_defs step_defs)

lemma ex_lab_ordered_eq:
  "ex_lab_ordered = ex_ready
     \<lparr>labTestCounter := 1,
      labTestOrders := (labTestOrders ex_ready)(1 :=
        \<lparr>lab_id = 1, lab_patient = 1, lab_doctor = 2, lab_labTech = 0, lab_status = Requested,
         lab_testType = ''blood'', lab_sampleCollectionIpfsHash = [], lab_resultsIpfsHash = [],
         lab_orderedTimestamp = 1000100, lab_completedTimestamp = 0\<rparr>),
      events := events ex_ready @ [LabTestOrdered 1 1]\<rparr>"
  by (simp add: ex_lab_ordered_def ex_ready_eq ex_defs step_defs)

lemma ex_lab_collected_eq:
  "ex_lab_collected = ex_lab_ordered
     \<lparr>labTestOrders := (labTestOrders ex_lab_ordered)(1 := (labTestOrders ex_lab_ordered 1)
        \<lparr>lab_labTech := 3, lab_sampleCollectionIpfsHash := ''QmSample'', lab_status := Collected\<rparr>)\<rparr>"
  by (simp add: ex_lab_collected_def ex_lab_ordered_eq ex_ready_eq ex_defs step_defs)

lemma ex_lab_uploaded_eq:
  "ex_lab_uploaded = ex_lab_collected
     \<lparr>labTestOrders := (labTestOrders ex_lab_collected)(1 := (labTestOrders ex_lab_collected 1)
        \<lparr>lab_resultsIpfsHash := ''QmResults'', lab_status := ResultsUploaded\<rparr>),
      events := events ex_lab_collected @ [LabTestResultsUploaded 1 ''QmResults'']\<rparr>"
  by (simp add: ex_lab_uploaded_def ex_lab_collected_eq ex_lab_ordered_eq ex_ready_eq ex_defs step_defs)

lemma ex_rx_generated_eq:
  "ex_rx_generated = ex_lab_uploaded
     \<lparr>labTestOrders := (labTestOrders ex_lab_uploaded)(1 := (labTestOrders ex_lab_uploaded 1)
        \<lparr>lab_status := Reviewed, lab_completedTimestamp := 1000400\<rparr>),
      prescriptionCounter := 1,
      prescriptions := (prescriptions ex_lab_uploaded)(1 :=
        \<lparr>rx_id = 1, rx_patient = 1, rx_doctor = 2, rx_verificationCodeHash = 1000404,
         rx_medicationDetails = ''medication'', rx_prescriptionIpfsHash = ''QmRx'',
         rx_status = Generated, rx_pharmacy = 0, rx_generatedTimestamp = 1000400,
         rx_expirationTimestamp = 3592400\<rparr>),
      events := events ex_lab_uploaded @ [PrescriptionGenerated 1 1]\<rparr>"
  by (simp add: ex_rx_generated_def ex_lab_uploaded_eq ex_lab_collected_eq ex_lab_ordered_eq
        ex_ready_eq ex_defs step_defs)

lemma ex_rx_verified_eq:
  "ex_rx_verified = ex_rx_generated
     \<lparr>prescriptions := (prescriptions ex_rx_generated)(1 := (prescriptions ex_rx_generated 1)
        \<lparr>rx_status := Verified, rx_pharmacy := 4\<rparr>),
      events := events ex_rx_generated @ [PrescriptionVerified 1 4]\<rparr>"
  by (simp add: ex_rx_verified_def ex_rx_generated_eq ex_lab_uploaded_eq ex_lab_collected_eq
        ex_lab_ordered_eq ex_ready_eq ex_defs step_defs)

lemma ex_sharing_eq:
  "ex_sharing = ex_ready
     \<lparr>patients := (patients ex_ready)(1 := (patients ex_ready 1)\<lparr>pat_dataSharing := Enabled\<rparr>),
      events := events ex_ready @ [DataMonetizationOptIn 1 True]\<rparr>"
  by (simp add: ex_sharing_def ex_ready_eq ex_defs step_defs)

lemma ex_phantom_rx_eq:
  "ex_phantom_rx = ex_ready
     \<lparr>prescriptions := (prescriptions ex_ready)(1 :=
        default_Prescription\<lparr>rx_status := Verified, rx_pharmacy := 4\<rparr>),
      events := events ex_ready @ [PrescriptionVerified 1 4]\<rparr>"
  by (simp add: ex_phantom_rx_def ex_ready_eq ex_defs step_defs)

lemma ex_phantom_lab_eq:
  "ex_phantom_lab = ex_ready
     \<lparr>labTestOrders := (labTestOrders ex_ready)(1 :=
        default_LabTestOrder\<lparr>lab_labTech := 3, lab_sampleCollectionIpfsHash := ''QmSample'',
                               lab_status := Collected\<rparr>)\<rparr>"
  by (simp add: ex_phantom_lab_def ex_ready_eq ex_defs step_defs)

lemmas ex_eqs = ex_ready_eq ex_lab_ordered_eq ex_lab_collected_eq ex_lab_uploaded_eq
  ex_rx_generated_eq ex_rx_verified_eq ex_sharing_eq ex_sharing_drained_def ex_sharing_quiet_def
  ex_phantom_rx_eq ex_phantom_lab_eq

lemmas eval_defs = ex_eqs ex_defs step_defs

lemma ex_lab_ordered_ok:
  "exec stand_in_hash ex_ready 2 0 1000100 (OrderLabTest 1 ''blood'') = Inr ex_lab_ordered"
  by (simp add: eval_defs)

lemma ex_lab_collected_ok:
  "exec stand_in_hash ex_lab_ordered 3 0 1000200 (CollectSample 1 ''QmSample'') = Inr ex_lab_collected"
  by (simp add: eval_defs)

lemma ex_lab_uploaded_ok:
  "exec stand_in_hash ex_lab_collected 3 0 1000300 (UploadLabResults 1 ''QmResults'')
     = Inr ex_lab_uploaded"
  by (simp add: eval_defs)

lemma ex_ready_reachable: "reachable H ex_ready"
proof -
  have "reachable H (ex_deploy ex_sonic_funded)"
    unfolding ex_deploy_def by (rule reach_init)
  with run_reaches [OF run_ex_setup] show ?thesis by (rule reachable_reaches)
qed

lemma ex_lab_ordered_reachable: "reachable stand_in_hash ex_lab_ordered"
  using ex_ready_reachable ex_lab_ordered_ok by (rule reach_call)

section \<open>Registration\<close>

text \<open>
  C9. A successful \<^verbatim>\<open>registerPatient\<close> from an identity creates its record and grants it the
  Patient role (one role-granted event, unless the identity held the role already); in
  every later state, whatever calls came in between, another \<^verbatim>\<open>registerPatient\<close> from that
  identity reverts with "Already registered" and changes nothing: no record is overwritten,
  no role is granted, no event is emitted.
\<close>

theorem registerPatient_twice:
  assumes first: "registerPatient s a k = Inr s'"
      and later: "reaches H s' s''"
  shows "hasRole s' PATIENT_ROLE a
       \<and> patients s' a = \<lparr>pat_isRegistered = True, pat_encryptedSymmetricKey = k,
            pat_medicalHistoryHash = 0, pat_gamification = \<lparr>mediPoints = 0, currentLevel = 1\<rparr>,
            pat_dataSharing = Disabled, pat_lastRewardTimestamp = 0\<rparr>
       \<and> events s' = events s @ (if hasRole s PATIENT_ROLE a then [] else [RoleGranted PATIENT_ROLE a a])
                              @ [PatientRegistered a]
       \<and> registerPatient s'' a k' = Inl AlreadyRegistered
       \<and> commit s'' (registerPatient s'' a k') = s''
       \<and> events (commit s'' (registerPatient s'' a k')) = events s''
       \<and> roles (commit s'' (registerPatient s'' a k')) = roles s''"
proof -
  from first have np: "\<not> paused s" and reg: "pat_isRegistered (patients s' a)"
    and role: "hasRole s' PATIENT_ROLE a" and p1: "paused s' = paused s"
    and rec: "patients s' a = \<lparr>pat_isRegistered = True, pat_encryptedSymmetricKey = k,
            pat_medicalHistoryHash = 0, pat_gamification = \<lparr>mediPoints = 0, currentLevel = 1\<rparr>,
            pat_dataSharing = Disabled, pat_lastRewardTimestamp = 0\<rparr>"
    and ev: "events s' = events s @ (if hasRole s PATIENT_ROLE a then [] else [RoleGranted PATIENT_ROLE a a])
                              @ [PatientRegistered a]"
    by (auto simp: registerPatient_def whenNotPaused_def helper_defs split: if_splits)
  from later reg have reg2: "pat_isRegistered (patients s'' a)" by (rule reaches_registered)
  from later have "paused s'' = paused s'" by (rule reaches_paused)
  with np p1 have np2: "\<not> paused s''" by simp
  from reg2 np2 have fail: "registerPatient s'' a k' = Inl AlreadyRegistered"
    by (simp add: registerPatient_def whenNotPaused_def)
  then have "commit s'' (registerPatient s'' a k') = s''" by (simp add: commit_def)
  with role rec ev fail show ?thesis by simp
qed

theorem registerPatient_twice_witness:
  "registerPatient (ex_deploy ex_sonic_funded) 1 ''key''
     = Inr (commit (ex_deploy ex_sonic_funded) (registerPatient (ex_deploy ex_sonic_funded) 1 ''key''))
   \<and> registerPatient
       (commit (ex_deploy ex_sonic_funded) (registerPatient (ex_deploy ex_sonic_funded) 1 ''key''))
       1 ''other'' = Inl AlreadyRegistered"
proof -
  have h: "registerPatient (ex_deploy ex_sonic_funded) 1 ''key''
     = Inr (commit (ex_deploy ex_sonic_funded) (registerPatient (ex_deploy ex_sonic_funded) 1 ''key''))"
    by (simp add: registerPatient_def whenNotPaused_def helper_defs ex_defs default_defs commit_def)
  from registerPatient_twice [where k' = "''other''" and H = stand_in_hash, OF h reaches_refl] h
  show ?thesis by simp
qed

section \<open>Booking against an unverified doctor\<close>

text \<open>
  C10. A \<^verbatim>\<open>bookAppointment\<close> that names a doctor whose record is not verified always reverts:
  with the missing-role error when the caller is no patient, with "Doctor not verified"
  otherwise (the reentrancy guard is never entered between transactions, and a caller
  whose balance does not cover the attached value cannot make the call at all). The state
  after the call is the state before it: no appointment, the counter, the balances and the
  caller's points as they were.
\<close>

theorem bookAppointment_unverified_doctor:
  assumes "\<not> doc_isVerified (doctors s doctor)"
  shows "bookAppointment s sender v now doctor ts pt iv link =
           Inl (if ethBalance s sender < v then CallerBalanceTooLow
                else if \<not> hasRole s PATIENT_ROLE sender then MissingRole PATIENT_ROLE sender
                else if entered s then ReentrantCall
                else DoctorNotVerified)
       \<and> commit s (bookAppointment s sender v now doctor ts pt iv link) = s
       \<and> appointments (commit s (bookAppointment s sender v now doctor ts pt iv link)) = appointments s
       \<and> appointmentCounter (commit s (bookAppointment s sender v now doctor ts pt iv link))
           = appointmentCounter s
       \<and> ethBalance (commit s (bookAppointment s sender v now doctor ts pt iv link)) = ethBalance s
       \<and> patients (commit s (bookAppointment s sender v now doctor ts pt iv link)) = patients s
       \<and> exec H s sender v now (BookAppointment doctor ts pt iv link) =
           bookAppointment s sender v now doctor ts pt iv link"
  using assms
  by (simp add: bookAppointment_def acceptValue_def onlyRole_def nonReentrant_def hasRole_def
        commit_def)

theorem bookAppointment_unverified_doctor_witness:
  "\<not> doc_isVerified (doctors ex_ready 3)
   \<and> bookAppointment ex_ready 1 7 1000000 3 1003600 ETH True ''zoom.link'' = Inl DoctorNotVerified
   \<and> appointmentCounter (commit ex_ready
        (bookAppointment ex_ready 1 7 1000000 3 1003600 ETH True ''zoom.link'')) = 0"
proof -
  have d: "\<not> doc_isVerified (doctors ex_ready 3)"
    by (simp add: eval_defs)
  have f: "\<not> ethBalance ex_ready 1 < 7 \<and> hasRole ex_ready PATIENT_ROLE 1 \<and> \<not> entered ex_ready
           \<and> appointmentCounter ex_ready = 0"
    by (simp add: eval_defs)
  from bookAppointment_unverified_doctor [OF d, of 1 7 1000000 1003600 ETH True "''zoom.link''" stand_in_hash]
    d f show ?thesis by (simp add: commit_def)
qed

section \<open>The prescription workflow\<close>

text \<open>
  C3 (as the contract has it). \<^verbatim>\<open>verifyPrescription\<close> succeeds exactly when the caller holds the
  Pharmacy role, the prescription is Generated and the 32-byte value the caller supplies
  equals the stored commitment: the contract compares the supplied value with the
  commitment and hashes nothing. On success the status becomes Verified and the caller is
  recorded as the pharmacy, nothing else of the prescription changes; for every status other
  than Generated the call reverts.
\<close>

theorem verifyPrescription_compares_commitment:
  "((\<exists>s'. verifyPrescription s sender i h = Inr s') \<longleftrightarrow>
      (hasRole s PHARMACY_ROLE sender \<and> rx_status (prescriptions s i) = Generated
       \<and> rx_verificationCodeHash (prescriptions s i) = h))
   \<and> (verifyPrescription s sender i h = Inr s' \<longrightarrow>
        prescriptions s' i = (prescriptions s i)\<lparr>rx_status := Verified, rx_pharmacy := sender\<rparr>
        \<and> (\<forall>j. j \<noteq> i \<longrightarrow> prescriptions s' j = prescriptions s j)
        \<and> events s' = events s @ [PrescriptionVerified i sender])
   \<and> (rx_status (prescriptions s i) \<noteq> Generated \<longrightarrow>
        (\<exists>e. verifyPrescription s sender i h = Inl e)
        \<and> commit s (verifyPrescription s sender i h) = s)"
  by (auto simp: verifyPrescription_def onlyRole_def emit_def commit_def split: if_splits)

theorem verifyPrescription_compares_commitment_witness:
  "verifyPrescription ex_rx_generated 4 1 1000404 = Inr ex_rx_verified
   \<and> rx_status (prescriptions ex_rx_verified 1) = Verified
   \<and> rx_pharmacy (prescriptions ex_rx_verified 1) = 4
   \<and> (\<exists>e. verifyPrescription ex_rx_verified 4 1 1000404 = Inl e)"
proof -
  have ok: "verifyPrescription ex_rx_generated 4 1 1000404 = Inr ex_rx_verified"
    by (simp add: eval_defs)
  from verifyPrescription_compares_commitment [of ex_rx_generated 4 1 1000404 ex_rx_verified] ok
  have a: "prescriptions ex_rx_verified 1
             = (prescriptions ex_rx_generated 1)\<lparr>rx_status := Verified, rx_pharmacy := 4\<rparr>"
    by blast
  then have b: "rx_status (prescriptions ex_rx_verified 1) \<noteq> Generated" by simp
  from verifyPrescription_compares_commitment [of ex_rx_verified 4 1 1000404] b
  have "\<exists>e. verifyPrescription ex_rx_verified 4 1 1000404 = Inl e" by blast
  with ok a show ?thesis by simp
qed

text \<open>
  C3 as stated fails. Prescription 1 of the example carries the commitment 1000404. The
  pharmacy that supplies 1000404 itself, whose hash is another value, is accepted; the
  pharmacy that supplies 1000403, whose hash is the commitment, is rejected.
\<close>

theorem verifyPrescription_no_hashing_counterexample:
  "rx_verificationCodeHash (prescriptions ex_rx_generated 1) = 1000404
   \<and> stand_in_hash [1000404] \<noteq> 1000404
   \<and> verifyPrescription ex_rx_generated 4 1 1000404 = Inr ex_rx_verified
   \<and> rx_status (prescriptions ex_rx_verified 1) = Verified
   \<and> stand_in_hash [1000403] = 1000404
   \<and> verifyPrescription ex_rx_generated 4 1 1000403 = Inl InvalidCode"
  by (simp add: eval_defs)

text \<open>
  C6 (as the contract has it). \<^verbatim>\<open>fulfillPrescription\<close> succeeds exactly when the caller holds the
  Pharmacy role and is the recorded verifying pharmacy, the status is Verified and the
  current time is at or before the expiration timestamp. After the expiration timestamp it
  reverts, with "Expired" when the other three conditions hold, and the prescription is as
  it was.
\<close>

theorem fulfillPrescription_until_expiration:
  "((\<exists>s'. fulfillPrescription s sender now i = Inr s') \<longleftrightarrow>
      (hasRole s PHARMACY_ROLE sender \<and> rx_pharmacy (prescriptions s i) = sender
       \<and> rx_status (prescriptions s i) = Verified
       \<and> now \<le> rx_expirationTimestamp (prescriptions s i)))
   \<and> (fulfillPrescription s sender now i = Inr s' \<longrightarrow>
        prescriptions s' i = (prescriptions s i)\<lparr>rx_status := Fulfilled\<rparr>)
   \<and> (rx_expirationTimestamp (prescriptions s i) < now \<longrightarrow>
        (\<exists>e. fulfillPrescription s sender now i = Inl e)
        \<and> (hasRole s PHARMACY_ROLE sender \<and> rx_pharmacy (prescriptions s i) = sender
             \<and> rx_status (prescriptions s i) = Verified
             \<longrightarrow> fulfillPrescription s sender now i = Inl Expired)
        \<and> commit s (fulfillPrescription s sender now i) = s
        \<and> prescriptions (commit s (fulfillPrescription s sender now i)) i = prescriptions s i)"
  by (auto simp: fulfillPrescription_def onlyRole_def emit_def commit_def split: if_splits)

theorem fulfillPrescription_until_expiration_witness:
  "rx_status (prescriptions ex_rx_verified 1) = Verified
   \<and> rx_expirationTimestamp (prescriptions ex_rx_verified 1) = 3592400
   \<and> fulfillPrescription ex_rx_verified 4 3592401 1 = Inl Expired
   \<and> (\<exists>s'. fulfillPrescription ex_rx_verified 4 3592399 1 = Inr s')"
proof -
  have f: "hasRole ex_rx_verified PHARMACY_ROLE 4" "rx_pharmacy (prescriptions ex_rx_verified 1) = 4"
    "rx_status (prescriptions ex_rx_verified 1) = Verified"
    "rx_expirationTimestamp (prescriptions ex_rx_verified 1) = 3592400"
    by (simp_all add: eval_defs)
  from fulfillPrescription_until_expiration [of ex_rx_verified 4 3592401 1] f
  have a: "fulfillPrescription ex_rx_verified 4 3592401 1 = Inl Expired" by simp
  from fulfillPrescription_until_expiration [of ex_rx_verified 4 3592399 1] f
  have b: "\<exists>s'. fulfillPrescription ex_rx_verified 4 3592399 1 = Inr s'" by simp
  from a b f show ?thesis by simp
qed

text \<open>
  C6 as stated fails at the boundary: prescription 1 of the example expires at 3592400, and
  the verifying pharmacy fulfils it in a block with exactly that timestamp.
\<close>

theorem fulfillPrescription_at_expiration_counterexample:
  "rx_expirationTimestamp (prescriptions ex_rx_verified 1) = 3592400
   \<and> rx_status (prescriptions ex_rx_verified 1) = Verified
   \<and> rx_status (prescriptions (commit ex_rx_verified (fulfillPrescription ex_rx_verified 4 3592400 1)) 1)
       = Fulfilled"
  by (simp add: eval_defs)

section \<open>The lab test workflow\<close>

text \<open>
  C8 (as the contract has it). For a created lab test order, every successful call leaves the
  status as it was or moves it along one edge of Requested, Collected, ResultsUploaded,
  Reviewed; along any sequence of calls the status never goes back. \<^verbatim>\<open>uploadLabResults\<close> on
  an order that is still Requested reverts and changes nothing; the error is that of the
  first failing check: the missing role, then "Not your order" when the caller is not the
  recorded technician, and "Sample not collected" only for a caller equal to the recorded
  technician. In a reachable state the technician of a Requested order is the zero address,
  so every lab technician other than the zero address gets "Not your order".
\<close>

theorem lab_status_moves_forward:
  "(exec H s sender v now c = Inr s' \<and> i \<le> labTestCounter s \<longrightarrow>
      lab_status (labTestOrders s' i) = lab_status (labTestOrders s i)
      \<or> spec_lab_edge (lab_status (labTestOrders s i)) (lab_status (labTestOrders s' i)))
   \<and> (reaches H s s'' \<and> i \<le> labTestCounter s \<longrightarrow>
      lab_rank (lab_status (labTestOrders s i)) \<le> lab_rank (lab_status (labTestOrders s'' i)))
   \<and> (lab_status (labTestOrders s i) = Requested \<longrightarrow>
      uploadLabResults s sender now i r =
        Inl (if \<not> hasRole s LAB_TECH_ROLE sender then MissingRole LAB_TECH_ROLE sender
             else if lab_labTech (labTestOrders s i) \<noteq> sender then NotYourOrder
             else SampleNotCollected)
      \<and> commit s (uploadLabResults s sender now i r) = s
      \<and> (reachable H s \<and> hasRole s LAB_TECH_ROLE sender \<and> sender \<noteq> 0 \<longrightarrow>
           uploadLabResults s sender now i r = Inl NotYourOrder))"
proof (intro conjI impI)
  assume "exec H s sender v now c = Inr s' \<and> i \<le> labTestCounter s"
  then show "lab_status (labTestOrders s' i) = lab_status (labTestOrders s i)
      \<or> spec_lab_edge (lab_status (labTestOrders s i)) (lab_status (labTestOrders s' i))"
    using exec_lab_status by blast
next
  assume "reaches H s s'' \<and> i \<le> labTestCounter s"
  then show "lab_rank (lab_status (labTestOrders s i)) \<le> lab_rank (lab_status (labTestOrders s'' i))"
    using reaches_lab_rank by blast
next
  assume rq: "lab_status (labTestOrders s i) = Requested"
  then show up: "uploadLabResults s sender now i r =
        Inl (if \<not> hasRole s LAB_TECH_ROLE sender then MissingRole LAB_TECH_ROLE sender
             else if lab_labTech (labTestOrders s i) \<noteq> sender then NotYourOrder
             else SampleNotCollected)"
    by (rule uploadLabResults_on_requested)
  then show "commit s (uploadLabResults s sender now i r) = s" by (simp add: commit_def)
  assume "reachable H s \<and> hasRole s LAB_TECH_ROLE sender \<and> sender \<noteq> 0"
  moreover from this rq have "lab_labTech (labTestOrders s i) = 0"
    using reachable_requested_unassigned by blast
  ultimately show "uploadLabResults s sender now i r = Inl NotYourOrder" using up by simp
qed

theorem lab_status_moves_forward_witness:
  "lab_status (labTestOrders ex_lab_ordered 1) = Requested
   \<and> spec_lab_edge (lab_status (labTestOrders ex_lab_ordered 1))
        (lab_status (labTestOrders ex_lab_collected 1))
   \<and> lab_rank (lab_status (labTestOrders ex_lab_ordered 1))
        \<le> lab_rank (lab_status (labTestOrders ex_lab_uploaded 1))
   \<and> uploadLabResults ex_lab_ordered 3 1000200 1 ''QmResults'' = Inl NotYourOrder"
proof -
  have f: "lab_status (labTestOrders ex_lab_ordered 1) = Requested"
    "1 \<le> labTestCounter ex_lab_ordered" "hasRole ex_lab_ordered LAB_TECH_ROLE 3"
    "lab_status (labTestOrders ex_lab_collected 1) = Collected"
    by (simp_all add: eval_defs)
  have r: "reaches stand_in_hash ex_lab_ordered ex_lab_uploaded"
    using reaches_call [OF reaches_call [OF reaches_refl ex_lab_collected_ok] ex_lab_uploaded_ok] .
  note T = lab_status_moves_forward [of stand_in_hash ex_lab_ordered 3 0 1000200
      "CollectSample 1 ''QmSample''" ex_lab_collected 1 ex_lab_uploaded "''QmResults''"]
  have nz: "(3::nat) \<noteq> 0" by simp
  from T ex_lab_collected_ok f(2)
  have "lab_status (labTestOrders ex_lab_collected 1) = lab_status (labTestOrders ex_lab_ordered 1)
      \<or> spec_lab_edge (lab_status (labTestOrders ex_lab_ordered 1))
           (lab_status (labTestOrders ex_lab_collected 1))"
    by blast
  with f(1,4) have a: "spec_lab_edge (lab_status (labTestOrders ex_lab_ordered 1))
           (lab_status (labTestOrders ex_lab_collected 1))"
    by simp
  from T r f(2) have b: "lab_rank (lab_status (labTestOrders ex_lab_ordered 1))
        \<le> lab_rank (lab_status (labTestOrders ex_lab_uploaded 1))"
    by blast
  from T f(1,3) ex_lab_ordered_reachable nz
  have c: "uploadLabResults ex_lab_ordered 3 1000200 1 ''QmResults'' = Inl NotYourOrder"
    by blast
  from a b c f(1) show ?thesis by blast
qed

text \<open>
  C8 as stated fails in its last part: on the order of the example, still Requested, the
  verified lab technician 3 gets "Not your order", the ownership error, and not the state
  error "Sample not collected".
\<close>

theorem uploadLabResults_before_collect_counterexample:
  "lab_status (labTestOrders ex_lab_ordered 1) = Requested
   \<and> hasRole ex_lab_ordered LAB_TECH_ROLE 3
   \<and> uploadLabResults ex_lab_ordered 3 1000200 1 ''QmResults'' = Inl NotYourOrder
   \<and> uploadLabResults ex_lab_ordered 3 1000200 1 ''QmResults'' \<noteq> Inl SampleNotCollected"
  by (simp add: eval_defs)

section \<open>Payment settlement\<close>

lemma lead_time_no_overflow:
  fixes ts :: "48 word"
  assumes "now + MIN_BOOKING_BUFFER < unat ts"
  shows "\<not> UINT256_MAX < now + MIN_BOOKING_BUFFER"
proof -
  have "unat ts < 2 ^ 48" using unsigned_less [of ts] by simp
  moreover have "(2::nat) ^ 48 \<le> UINT256_MAX" by (simp add: UINT256_MAX_def)
  ultimately show ?thesis using assms by linarith
qed

lemma bookAppointment_underpaid_fails:
  "v < doc_consultationFee (doctors s doctor) \<Longrightarrow>
     \<exists>e. bookAppointment s sender v now doctor ts ETH iv link = Inl e"
  by (auto simp: bookAppointment_def acceptValue_def onlyRole_def nonReentrant_def hasRole_def
        processPayment_def Let_def split: sum.splits)

lemma bookAppointment_underpaid_error:
  assumes "v \<le> ethBalance s sender" and "hasRole s PATIENT_ROLE sender" and "\<not> entered s"
      and "doc_isVerified (doctors s doctor)" and "now + MIN_BOOKING_BUFFER < unat ts"
      and "v < doc_consultationFee (doctors s doctor)"
  shows "bookAppointment s sender v now doctor ts ETH iv link = Inl InsufficientETH"
  using assms lead_time_no_overflow [of now ts]
  by (simp add: bookAppointment_def acceptValue_def onlyRole_def nonReentrant_def hasRole_def
        processPayment_def Let_def)

lemma bookAppointment_paid:
  assumes "v \<le> ethBalance s sender" and "hasRole s PATIENT_ROLE sender" and "\<not> entered s"
      and "doc_isVerified (doctors s doctor)" and "now + MIN_BOOKING_BUFFER < unat ts"
      and "sender \<noteq> self s"
      and "doc_consultationFee (doctors s doctor) \<le> v"
      and "doc_consultationFee (doctors s doctor) < v \<longrightarrow> acceptsEther s sender"
      and "appointmentCounter s < UINT256_MAX"
      and "mediPoints (pat_gamification (patients s sender)) + 20 \<le> UINT96_MAX"
  shows "\<exists>s'. bookAppointment s sender v now doctor ts ETH iv link = Inr s'
           \<and> ethBalance s' (self s) = ethBalance s (self s) + doc_consultationFee (doctors s doctor)
           \<and> ethBalance s' sender
               = ethBalance s sender - v + (v - doc_consultationFee (doctors s doctor))
           \<and> (\<forall>a. a \<noteq> sender \<and> a \<noteq> self s \<longrightarrow> ethBalance s' a = ethBalance s a)
           \<and> appointmentCounter s' = appointmentCounter s + 1
           \<and> appointments s' (appointmentCounter s') =
               \<lparr>apt_id = appointmentCounter s + 1, apt_patient = sender, apt_doctor = doctor,
                apt_scheduledTimestamp = unat ts, apt_status = Pending,
                apt_fee = doc_consultationFee (doctors s doctor), apt_paymentType = ETH,
                apt_videoCallLink = (if iv then link else []), apt_isVideoCall = iv\<rparr>"
  using assms lead_time_no_overflow [of now ts]
  by (auto simp: bookAppointment_def acceptValue_def onlyRole_def nonReentrant_def hasRole_def
        processPayment_def sendEther_def move_def add_mediPoints_def emit_def Let_def)

lemma bookAppointment_success_settles:
  assumes "bookAppointment s sender v now doctor ts ETH iv link = Inr s'" and "sender \<noteq> self s"
  shows "doc_consultationFee (doctors s doctor) \<le> v
       \<and> ethBalance s' (self s) = ethBalance s (self s) + doc_consultationFee (doctors s doctor)
       \<and> ethBalance s' sender
           = ethBalance s sender - v + (v - doc_consultationFee (doctors s doctor))
       \<and> appointmentCounter s' = appointmentCounter s + 1
       \<and> apt_fee (appointments s' (appointmentCounter s')) = doc_consultationFee (doctors s doctor)"
  using assms
  by (auto simp: bookAppointment_def acceptValue_def onlyRole_def nonReentrant_def hasRole_def
        processPayment_def sendEther_def move_def add_mediPoints_def emit_def Let_def
      split: if_splits sum.splits)

lemma ex_ready_booking_facts:
  "ethBalance ex_ready 1 = 10 ^ 18" "ethBalance ex_ready 500 = 0" "self ex_ready = 500"
  "hasRole ex_ready PATIENT_ROLE 1" "\<not> entered ex_ready" "doc_isVerified (doctors ex_ready 2)"
  "doc_consultationFee (doctors ex_ready 2) = 7" "acceptsEther ex_ready 1"
  "appointmentCounter ex_ready = 0" "mediPoints (pat_gamification (patients ex_ready 1)) = 0"
  by (simp_all add: eval_defs)

text \<open>
  C7. Every successful booking paid in native currency has at least the doctor's fee attached,
  leaves exactly the fee with the contract and gives the caller back exactly the attached
  value minus the fee. A booking with less than the fee attached always reverts and creates
  no record; when the guards before the payment pass (patient role, verified doctor, lead
  time), the revert reason is "Insufficient ETH". When they pass, the fee is covered and the
  caller accepts the refund, the booking succeeds. The doctor argument is a well-formed
  address, the requested time a \<^verbatim>\<open>uint48\<close>.
\<close>

theorem bookAppointment_native_payment:
  "(bookAppointment s sender v now doctor ts ETH iv link = Inr s'' \<and> sender \<noteq> self s \<longrightarrow>
      doc_consultationFee (doctors s doctor) \<le> v
      \<and> ethBalance s'' (self s) = ethBalance s (self s) + doc_consultationFee (doctors s doctor)
      \<and> ethBalance s'' sender
           = ethBalance s sender - v + (v - doc_consultationFee (doctors s doctor))
      \<and> appointmentCounter s'' = appointmentCounter s + 1
      \<and> apt_fee (appointments s'' (appointmentCounter s'')) = doc_consultationFee (doctors s doctor))
   \<and> (v < doc_consultationFee (doctors s doctor) \<longrightarrow>
      (\<exists>e. bookAppointment s sender v now doctor ts ETH iv link = Inl e)
      \<and> commit s (bookAppointment s sender v now doctor ts ETH iv link) = s
      \<and> appointments (commit s (bookAppointment s sender v now doctor ts ETH iv link)) = appointments s)
   \<and> (v \<le> ethBalance s sender \<and> hasRole s PATIENT_ROLE sender \<and> \<not> entered s
       \<and> doc_isVerified (doctors s doctor) \<and> doctor \<le> ADDRESS_MAX
       \<and> now + MIN_BOOKING_BUFFER < unat ts \<longrightarrow>
      (v < doc_consultationFee (doctors s doctor) \<longrightarrow>
         bookAppointment s sender v now doctor ts ETH iv link = Inl InsufficientETH)
      \<and> (doc_consultationFee (doctors s doctor) \<le> v \<and> sender \<noteq> self s
          \<and> (doc_consultationFee (doctors s doctor) < v \<longrightarrow> acceptsEther s sender)
          \<and> appointmentCounter s < UINT256_MAX
          \<and> mediPoints (pat_gamification (patients s sender)) + 20 \<le> UINT96_MAX \<longrightarrow>
         (\<exists>s'. bookAppointment s sender v now doctor ts ETH iv link = Inr s'
           \<and> ethBalance s' (self s) = ethBalance s (self s) + doc_consultationFee (doctors s doctor)
           \<and> ethBalance s' sender
               = ethBalance s sender - v + (v - doc_consultationFee (doctors s doctor))
           \<and> (\<forall>a. a \<noteq> sender \<and> a \<noteq> self s \<longrightarrow> ethBalance s' a = ethBalance s a)
           \<and> appointmentCounter s' = appointmentCounter s + 1
           \<and> appointments s' (appointmentCounter s') =
               \<lparr>apt_id = appointmentCounter s + 1, apt_patient = sender, apt_doctor = doctor,
                apt_scheduledTimestamp = unat ts, apt_status = Pending,
                apt_fee = doc_consultationFee (doctors s doctor), apt_paymentType = ETH,
                apt_videoCallLink = (if iv then link else []), apt_isVideoCall = iv\<rparr>)))"
proof (intro conjI impI)
  assume "bookAppointment s sender v now doctor ts ETH iv link = Inr s'' \<and> sender \<noteq> self s"
  then have ok: "bookAppointment s sender v now doctor ts ETH iv link = Inr s''"
    and ns: "sender \<noteq> self s"
    by simp_all
  note D = bookAppointment_success_settles [OF ok ns]
  from D show "doc_consultationFee (doctors s doctor) \<le> v" by blast
  from D show "ethBalance s'' (self s) = ethBalance s (self s) + doc_consultationFee (doctors s doctor)"
    by blast
  from D show "ethBalance s'' sender
           = ethBalance s sender - v + (v - doc_consultationFee (doctors s doctor))"
    by blast
  from D show "appointmentCounter s'' = appointmentCounter s + 1" by blast
  from D show "apt_fee (appointments s'' (appointmentCounter s'')) = doc_consultationFee (doctors s doctor)"
    by blast
next
  assume u: "v < doc_consultationFee (doctors s doctor)"
  then show f: "\<exists>e. bookAppointment s sender v now doctor ts ETH iv link = Inl e"
    by (rule bookAppointment_underpaid_fails)
  then show c: "commit s (bookAppointment s sender v now doctor ts ETH iv link) = s"
    by (auto simp: commit_def)
  then show "appointments (commit s (bookAppointment s sender v now doctor ts ETH iv link)) = appointments s"
    by simp
next
  assume "v \<le> ethBalance s sender \<and> hasRole s PATIENT_ROLE sender \<and> \<not> entered s
       \<and> doc_isVerified (doctors s doctor) \<and> doctor \<le> ADDRESS_MAX
       \<and> now + MIN_BOOKING_BUFFER < unat ts"
    and "v < doc_consultationFee (doctors s doctor)"
  then show "bookAppointment s sender v now doctor ts ETH iv link = Inl InsufficientETH"
    by (intro bookAppointment_underpaid_error) simp_all
next
  assume "v \<le> ethBalance s sender \<and> hasRole s PATIENT_ROLE sender \<and> \<not> entered s
       \<and> doc_isVerified (doctors s doctor) \<and> doctor \<le> ADDRESS_MAX
       \<and> now + MIN_BOOKING_BUFFER < unat ts"
    and "doc_consultationFee (doctors s doctor) \<le> v \<and> sender \<noteq> self s
          \<and> (doc_consultationFee (doctors s doctor) < v \<longrightarrow> acceptsEther s sender)
          \<and> appointmentCounter s < UINT256_MAX
          \<and> mediPoints (pat_gamification (patients s sender)) + 20 \<le> UINT96_MAX"
  then show "\<exists>s'. bookAppointment s sender v now doctor ts ETH iv link = Inr s'
           \<and> ethBalance s' (self s) = ethBalance s (self s) + doc_consultationFee (doctors s doctor)
           \<and> ethBalance s' sender
               = ethBalance s sender - v + (v - doc_consultationFee (doctors s doctor))
           \<and> (\<forall>a. a \<noteq> sender \<and> a \<noteq> self s \<longrightarrow> ethBalance s' a = ethBalance s a)
           \<and> appointmentCounter s' = appointmentCounter s + 1
           \<and> appointments s' (appointmentCounter s') =
               \<lparr>apt_id = appointmentCounter s + 1, apt_patient = sender, apt_doctor = doctor,
                apt_scheduledTimestamp = unat ts, apt_status = Pending,
                apt_fee = doc_consultationFee (doctors s doctor), apt_paymentType = ETH,
                apt_videoCallLink = (if iv then link else []), apt_isVideoCall = iv\<rparr>"
    by (intro bookAppointment_paid) simp_all
qed

theorem bookAppointment_native_payment_witness:
  "(\<exists>s'. bookAppointment ex_ready 1 10 1000000 2 1003600 ETH True ''zoom.link'' = Inr s'
       \<and> ethBalance s' 500 = 7 \<and> ethBalance s' 1 = 10 ^ 18 - 7 \<and> apt_fee (appointments s' 1) = 7)
   \<and> bookAppointment ex_ready 1 6 1000000 2 1003600 ETH True ''zoom.link'' = Inl InsufficientETH"
proof -
  note f = ex_ready_booking_facts
  have g: "(1000000::nat) + MIN_BOOKING_BUFFER < unat (1003600 :: 48 word)"
    "(2::nat) \<le> ADDRESS_MAX" "(0::nat) < UINT256_MAX" "(0::nat) + 20 \<le> UINT96_MAX"
    by (simp_all add: const_defs)
  from bookAppointment_native_payment [where v = 6 and s = ex_ready and doctor = 2 and sender = 1 and now = 1000000
      and ts = 1003600 and iv = True and link = "''zoom.link''" and s'' = ex_ready] f g
  have a: "bookAppointment ex_ready 1 6 1000000 2 1003600 ETH True ''zoom.link'' = Inl InsufficientETH"
    by simp
  from bookAppointment_native_payment [where v = 10 and s = ex_ready and doctor = 2 and sender = 1 and now = 1000000
      and ts = 1003600 and iv = True and link = "''zoom.link''" and s'' = ex_ready] f g
  have "\<exists>s'. bookAppointment ex_ready 1 10 1000000 2 1003600 ETH True ''zoom.link'' = Inr s'
       \<and> ethBalance s' 500 = 7 \<and> ethBalance s' 1 = 10 ^ 18 - 7 \<and> apt_fee (appointments s' 1) = 7"
    by auto
  with a show ?thesis by simp
qed

section \<open>The reward engine\<close>

lemma monetizeData_noop:
  "pat_dataSharing (patients s p) \<noteq> Enabled
     \<or> (pat_lastRewardTimestamp (patients s p) + ONE_DAY \<le> UINT256_MAX
         \<and> now < pat_lastRewardTimestamp (patients s p) + ONE_DAY)
   \<Longrightarrow> monetizeData s now p = Inr s"
  by (auto simp: monetizeData_def)

lemma requestAISymptomAnalysis_pays:
  assumes "hasRole s PATIENT_ROLE p" and "aiAnalysisCounter s < UINT256_MAX"
      and "mediPoints (pat_gamification (patients s p)) + 10 \<le> UINT96_MAX"
      and "pat_dataSharing (patients s p) = Enabled"
      and "pat_lastRewardTimestamp (patients s p) + ONE_DAY \<le> now" and "now \<le> UINT256_MAX"
      and "DATA_MONETIZATION_REWARD \<le> balanceOf (sonicToken s) (self s)" and "p \<noteq> self s"
  shows "\<exists>s'. requestAISymptomAnalysis s p now sy = Inr s'
           \<and> balanceOf (sonicToken s') p = balanceOf (sonicToken s) p + DATA_MONETIZATION_REWARD
           \<and> balanceOf (sonicToken s') (self s)
               = balanceOf (sonicToken s) (self s) - DATA_MONETIZATION_REWARD
           \<and> pat_lastRewardTimestamp (patients s' p) = now
           \<and> events s' = events s @ [AISymptomAnalyzed (aiAnalysisCounter s + 1) p,
                                       DataRewardClaimed p DATA_MONETIZATION_REWARD]
           \<and> hasRole s' PATIENT_ROLE p \<and> aiAnalysisCounter s' = aiAnalysisCounter s + 1
           \<and> mediPoints (pat_gamification (patients s' p))
               = mediPoints (pat_gamification (patients s p)) + 10
           \<and> pat_dataSharing (patients s' p) = Enabled \<and> self s' = self s"
  using assms
  by (simp add: requestAISymptomAnalysis_def onlyRole_def hasRole_def add_mediPoints_def
        monetizeData_def set_lastRewardTimestamp_def token_transfer_def move_def emit_def Let_def)

lemma requestAISymptomAnalysis_cooling:
  assumes "hasRole s PATIENT_ROLE p" and "aiAnalysisCounter s < UINT256_MAX"
      and "mediPoints (pat_gamification (patients s p)) + 10 \<le> UINT96_MAX"
      and "pat_lastRewardTimestamp (patients s p) + ONE_DAY \<le> UINT256_MAX"
      and "now < pat_lastRewardTimestamp (patients s p) + ONE_DAY"
  shows "\<exists>s'. requestAISymptomAnalysis s p now sy = Inr s'
           \<and> sonicToken s' = sonicToken s
           \<and> pat_lastRewardTimestamp (patients s' p) = pat_lastRewardTimestamp (patients s p)
           \<and> events s' = events s @ [AISymptomAnalyzed (aiAnalysisCounter s + 1) p]
           \<and> hasRole s' PATIENT_ROLE p \<and> aiAnalysisCounter s' = aiAnalysisCounter s + 1
           \<and> mediPoints (pat_gamification (patients s' p))
               = mediPoints (pat_gamification (patients s p)) + 10
           \<and> pat_dataSharing (patients s' p) = pat_dataSharing (patients s p) \<and> self s' = self s"
  using assms
  by (simp add: requestAISymptomAnalysis_def onlyRole_def hasRole_def add_mediPoints_def
        monetizeData_def emit_def Let_def)

lemma register_then_enable:
  assumes "\<not> paused s" and "\<not> pat_isRegistered (patients s p)"
  shows "\<exists>s1 s2. registerPatient s p k = Inr s1 \<and> toggleDataMonetization s1 p True = Inr s2
           \<and> hasRole s2 PATIENT_ROLE p \<and> aiAnalysisCounter s2 = aiAnalysisCounter s
           \<and> mediPoints (pat_gamification (patients s2 p)) = 0
           \<and> pat_dataSharing (patients s2 p) = Enabled
           \<and> pat_lastRewardTimestamp (patients s2 p) = 0
           \<and> sonicToken s2 = sonicToken s \<and> self s2 = self s"
  using assms
  by (simp add: registerPatient_def whenNotPaused_def toggleDataMonetization_def onlyRole_def
        hasRole_def internal_grantRole_def emit_def)

text \<open>
  C5. A patient with data sharing enabled whose cooldown has elapsed, with the treasury
  funded, calls \<^verbatim>\<open>claimDataReward\<close> at time \<open>t\<close> and again at a time \<open>t'\<close> less than 24 hours
  after \<open>t\<close>: the first call succeeds, sets the last-reward timestamp to \<open>t\<close> and moves the
  fixed reward from the contract to the patient; the second reverts with "Reward not yet
  available" and changes nothing, so the patient has been paid exactly once.
\<close>

theorem claimDataReward_twice:
  assumes "hasRole s PATIENT_ROLE p" and "\<not> entered s"
      and "pat_dataSharing (patients s p) = Enabled"
      and "pat_lastRewardTimestamp (patients s p) + ONE_DAY \<le> t"
      and "t + ONE_DAY \<le> UINT256_MAX"
      and "DATA_MONETIZATION_REWARD \<le> balanceOf (sonicToken s) (self s)"
      and "p \<noteq> self s"
      and "t' < t + ONE_DAY"
  shows "\<exists>s'. claimDataReward s p t = Inr s'
           \<and> pat_lastRewardTimestamp (patients s' p) = t
           \<and> balanceOf (sonicToken s') p = balanceOf (sonicToken s) p + DATA_MONETIZATION_REWARD
           \<and> balanceOf (sonicToken s') (self s)
               = balanceOf (sonicToken s) (self s) - DATA_MONETIZATION_REWARD
           \<and> events s' = events s @ [DataRewardClaimed p DATA_MONETIZATION_REWARD]
           \<and> claimDataReward s' p t' = Inl RewardNotYetAvailable
           \<and> commit s' (claimDataReward s' p t') = s'
           \<and> balanceOf (sonicToken (commit s' (claimDataReward s' p t'))) p
               = balanceOf (sonicToken s) p + DATA_MONETIZATION_REWARD"
  using assms
  by (simp add: claimDataReward_def onlyRole_def nonReentrant_def hasRole_def
        set_lastRewardTimestamp_def token_transfer_def move_def emit_def commit_def Let_def)

theorem claimDataReward_twice_witness:
  "claimDataReward ex_sharing 1 1000100 = Inr (commit ex_sharing (claimDataReward ex_sharing 1 1000100))
   \<and> balanceOf (sonicToken (commit ex_sharing (claimDataReward ex_sharing 1 1000100))) 1
        = DATA_MONETIZATION_REWARD
   \<and> claimDataReward (commit ex_sharing (claimDataReward ex_sharing 1 1000100)) 1 1000200
        = Inl RewardNotYetAvailable"
proof -
  have f: "hasRole ex_sharing PATIENT_ROLE 1" "\<not> entered ex_sharing"
    "pat_dataSharing (patients ex_sharing 1) = Enabled"
    "pat_lastRewardTimestamp (patients ex_sharing 1) + ONE_DAY \<le> 1000100"
    "1000100 + ONE_DAY \<le> UINT256_MAX"
    "DATA_MONETIZATION_REWARD \<le> balanceOf (sonicToken ex_sharing) (self ex_sharing)"
    "1 \<noteq> self ex_sharing" "(1000200::nat) < 1000100 + ONE_DAY"
    "balanceOf (sonicToken ex_sharing) 1 = 0"
    by (simp_all add: eval_defs)
  from claimDataReward_twice [OF f(1-8)] f(9) show ?thesis by (auto simp: commit_def)
qed

text \<open>
  C2 (as the contract has it). Registration sets the last-reward timestamp to zero and enabling
  data sharing does not touch it. So a patient who registers, enables data sharing and
  submits a symptom analysis in a block whose timestamp is at least 24 hours (every real
  block) is paid on that first submission; a submission less than 24 hours after that payout
  pays nothing; a submission 24 hours or more after it pays the fixed reward once more.
  The treasury is assumed to hold two rewards.
\<close>

theorem implicit_reward_after_enable:
  assumes "\<not> paused s" and "\<not> pat_isRegistered (patients s p)" and "p \<noteq> self s"
      and "aiAnalysisCounter s + 3 \<le> UINT256_MAX"
      and "2 * DATA_MONETIZATION_REWARD \<le> balanceOf (sonicToken s) (self s)"
      and "ONE_DAY \<le> t1" and "t2 < t1 + ONE_DAY" and "t1 + ONE_DAY \<le> t3" and "t3 \<le> UINT256_MAX"
  shows "\<exists>s1 s2 s3 s4 s5.
           registerPatient s p k = Inr s1
         \<and> toggleDataMonetization s1 p True = Inr s2
         \<and> requestAISymptomAnalysis s2 p t1 sy1 = Inr s3
         \<and> balanceOf (sonicToken s3) p = balanceOf (sonicToken s) p + DATA_MONETIZATION_REWARD
         \<and> pat_lastRewardTimestamp (patients s3 p) = t1
         \<and> requestAISymptomAnalysis s3 p t2 sy2 = Inr s4
         \<and> balanceOf (sonicToken s4) p = balanceOf (sonicToken s3) p
         \<and> events s4 = events s3 @ [AISymptomAnalyzed (aiAnalysisCounter s + 2) p]
         \<and> requestAISymptomAnalysis s4 p t3 sy3 = Inr s5
         \<and> balanceOf (sonicToken s5) p = balanceOf (sonicToken s4) p + DATA_MONETIZATION_REWARD
         \<and> events s5 = events s4 @ [AISymptomAnalyzed (aiAnalysisCounter s + 3) p,
                                      DataRewardClaimed p DATA_MONETIZATION_REWARD]"
proof -
  from register_then_enable [OF assms(1,2), of k] obtain s1 s2 where
    a: "registerPatient s p k = Inr s1" "toggleDataMonetization s1 p True = Inr s2"
       "hasRole s2 PATIENT_ROLE p" "aiAnalysisCounter s2 = aiAnalysisCounter s"
       "mediPoints (pat_gamification (patients s2 p)) = 0"
       "pat_dataSharing (patients s2 p) = Enabled" "pat_lastRewardTimestamp (patients s2 p) = 0"
       "sonicToken s2 = sonicToken s" "self s2 = self s"
    by blast
  have t1: "t1 \<le> UINT256_MAX" using assms(8,9) by simp
  have "\<exists>s'. requestAISymptomAnalysis s2 p t1 sy1 = Inr s'
           \<and> balanceOf (sonicToken s') p = balanceOf (sonicToken s2) p + DATA_MONETIZATION_REWARD
           \<and> balanceOf (sonicToken s') (self s2)
               = balanceOf (sonicToken s2) (self s2) - DATA_MONETIZATION_REWARD
           \<and> pat_lastRewardTimestamp (patients s' p) = t1
           \<and> events s' = events s2 @ [AISymptomAnalyzed (aiAnalysisCounter s2 + 1) p,
                                       DataRewardClaimed p DATA_MONETIZATION_REWARD]
           \<and> hasRole s' PATIENT_ROLE p \<and> aiAnalysisCounter s' = aiAnalysisCounter s2 + 1
           \<and> mediPoints (pat_gamification (patients s' p))
               = mediPoints (pat_gamification (patients s2 p)) + 10
           \<and> pat_dataSharing (patients s' p) = Enabled \<and> self s' = self s2"
    using a assms t1 by (intro requestAISymptomAnalysis_pays) (simp_all add: UINT96_MAX_def)
  then obtain s3 where
    b: "requestAISymptomAnalysis s2 p t1 sy1 = Inr s3"
       "balanceOf (sonicToken s3) p = balanceOf (sonicToken s2) p + DATA_MONETIZATION_REWARD"
       "balanceOf (sonicToken s3) (self s2)
          = balanceOf (sonicToken s2) (self s2) - DATA_MONETIZATION_REWARD"
       "pat_lastRewardTimestamp (patients s3 p) = t1"
       "hasRole s3 PATIENT_ROLE p" "aiAnalysisCounter s3 = aiAnalysisCounter s2 + 1"
       "mediPoints (pat_gamification (patients s3 p))
          = mediPoints (pat_gamification (patients s2 p)) + 10"
       "pat_dataSharing (patients s3 p) = Enabled" "self s3 = self s2"
    by blast
  have "\<exists>s'. requestAISymptomAnalysis s3 p t2 sy2 = Inr s'
           \<and> sonicToken s' = sonicToken s3
           \<and> pat_lastRewardTimestamp (patients s' p) = pat_lastRewardTimestamp (patients s3 p)
           \<and> events s' = events s3 @ [AISymptomAnalyzed (aiAnalysisCounter s3 + 1) p]
           \<and> hasRole s' PATIENT_ROLE p \<and> aiAnalysisCounter s' = aiAnalysisCounter s3 + 1
           \<and> mediPoints (pat_gamification (patients s' p))
               = mediPoints (pat_gamification (patients s3 p)) + 10
           \<and> pat_dataSharing (patients s' p) = pat_dataSharing (patients s3 p) \<and> self s' = self s3"
    using a b assms by (intro requestAISymptomAnalysis_cooling) (simp_all add: UINT96_MAX_def)
  then obtain s4 where
    c: "requestAISymptomAnalysis s3 p t2 sy2 = Inr s4" "sonicToken s4 = sonicToken s3"
       "pat_lastRewardTimestamp (patients s4 p) = pat_lastRewardTimestamp (patients s3 p)"
       "events s4 = events s3 @ [AISymptomAnalyzed (aiAnalysisCounter s3 + 1) p]"
       "hasRole s4 PATIENT_ROLE p" "aiAnalysisCounter s4 = aiAnalysisCounter s3 + 1"
       "mediPoints (pat_gamification (patients s4 p))
          = mediPoints (pat_gamification (patients s3 p)) + 10"
       "pat_dataSharing (patients s4 p) = pat_dataSharing (patients s3 p)" "self s4 = self s3"
    by blast
  have "\<exists>s'. requestAISymptomAnalysis s4 p t3 sy3 = Inr s'
           \<and> balanceOf (sonicToken s') p = balanceOf (sonicToken s4) p + DATA_MONETIZATION_REWARD
           \<and> balanceOf (sonicToken s') (self s4)
               = balanceOf (sonicToken s4) (self s4) - DATA_MONETIZATION_REWARD
           \<and> pat_lastRewardTimestamp (patients s' p) = t3
           \<and> events s' = events s4 @ [AISymptomAnalyzed (aiAnalysisCounter s4 + 1) p,
                                       DataRewardClaimed p DATA_MONETIZATION_REWARD]
           \<and> hasRole s' PATIENT_ROLE p \<and> aiAnalysisCounter s' = aiAnalysisCounter s4 + 1
           \<and> mediPoints (pat_gamification (patients s' p))
               = mediPoints (pat_gamification (patients s4 p)) + 10
           \<and> pat_dataSharing (patients s' p) = Enabled \<and> self s' = self s4"
    using a b c assms by (intro requestAISymptomAnalysis_pays) (simp_all add: UINT96_MAX_def)
  then obtain s5 where
    d: "requestAISymptomAnalysis s4 p t3 sy3 = Inr s5"
       "balanceOf (sonicToken s5) p = balanceOf (sonicToken s4) p + DATA_MONETIZATION_REWARD"
       "events s5 = events s4 @ [AISymptomAnalyzed (aiAnalysisCounter s4 + 1) p,
                                       DataRewardClaimed p DATA_MONETIZATION_REWARD]"
    by blast
  from a b c d show ?thesis
    by (intro exI [of _ s1] exI [of _ s2] exI [of _ s3] exI [of _ s4] exI [of _ s5]) simp
qed

theorem implicit_reward_after_enable_witness:
  "\<exists>s1 s2 s3 s4 s5.
           registerPatient (ex_deploy ex_sonic_funded) 1 ''key'' = Inr s1
         \<and> toggleDataMonetization s1 1 True = Inr s2
         \<and> requestAISymptomAnalysis s2 1 1000000 ''fever'' = Inr s3
         \<and> balanceOf (sonicToken s3) 1 = DATA_MONETIZATION_REWARD
         \<and> requestAISymptomAnalysis s3 1 1000100 ''cough'' = Inr s4
         \<and> balanceOf (sonicToken s4) 1 = DATA_MONETIZATION_REWARD
         \<and> requestAISymptomAnalysis s4 1 1086400 ''rash'' = Inr s5
         \<and> balanceOf (sonicToken s5) 1 = 2 * DATA_MONETIZATION_REWARD"
proof -
  have f: "\<not> paused (ex_deploy ex_sonic_funded)"
    "\<not> pat_isRegistered (patients (ex_deploy ex_sonic_funded) 1)"
    "1 \<noteq> self (ex_deploy ex_sonic_funded)"
    "aiAnalysisCounter (ex_deploy ex_sonic_funded) + 3 \<le> UINT256_MAX"
    "2 * DATA_MONETIZATION_REWARD
       \<le> balanceOf (sonicToken (ex_deploy ex_sonic_funded)) (self (ex_deploy ex_sonic_funded))"
    "ONE_DAY \<le> 1000000" "(1000100::nat) < 1000000 + ONE_DAY" "1000000 + ONE_DAY \<le> 1086400"
    "(1086400::nat) \<le> UINT256_MAX"
    by (simp_all add: eval_defs)
  have z: "balanceOf (sonicToken (ex_deploy ex_sonic_funded)) 1 = 0"
    by (simp add: eval_defs)
  from implicit_reward_after_enable [OF f, of "''key''" "''fever''" "''cough''" "''rash''"]
  obtain s1 s2 s3 s4 s5 where
      "registerPatient (ex_deploy ex_sonic_funded) 1 ''key'' = Inr s1"
      "toggleDataMonetization s1 1 True = Inr s2"
      "requestAISymptomAnalysis s2 1 1000000 ''fever'' = Inr s3"
      "balanceOf (sonicToken s3) 1
         = balanceOf (sonicToken (ex_deploy ex_sonic_funded)) 1 + DATA_MONETIZATION_REWARD"
      "requestAISymptomAnalysis s3 1 1000100 ''cough'' = Inr s4"
      "balanceOf (sonicToken s4) 1 = balanceOf (sonicToken s3) 1"
      "requestAISymptomAnalysis s4 1 1086400 ''rash'' = Inr s5"
      "balanceOf (sonicToken s5) 1 = balanceOf (sonicToken s4) 1 + DATA_MONETIZATION_REWARD"
    by blast
  with z show ?thesis
    by (intro exI [of _ s1] exI [of _ s2] exI [of _ s3] exI [of _ s4] exI [of _ s5]) simp
qed

text \<open>
  C2 as stated fails: patient 1 of the example enables data sharing in the block of the
  registration and submits a symptom analysis in that same block; the submission pays the
  reward at once.
\<close>

theorem implicit_reward_first_action_counterexample:
  "pat_dataSharing (patients ex_sharing 1) = Enabled
   \<and> balanceOf (sonicToken ex_sharing) 1 = 0
   \<and> balanceOf (sonicToken (commit ex_sharing
        (requestAISymptomAnalysis ex_sharing 1 1000000 ''fever''))) 1 = DATA_MONETIZATION_REWARD
   \<and> pat_lastRewardTimestamp (patients (commit ex_sharing
        (requestAISymptomAnalysis ex_sharing 1 1000000 ''fever'')) 1) = 1000000"
  by (simp add: eval_defs)

text \<open>
  C1 fails on the code. Patient 1 has data sharing enabled and the cooldown has elapsed, but
  the treasury holds no reward tokens. With a token that reverts on a transfer it cannot
  cover, the symptom-analysis submission and the lab order revert as a whole: no analysis
  and no order is recorded. With a token that returns \<^verbatim>\<open>false\<close>, the submission succeeds,
  but the trigger is not a no-op: it moves the last-reward timestamp although nothing was
  paid. \<^verbatim>\<open>claimDataReward\<close>, the explicit path, checks the treasury first.
\<close>

theorem implicit_reward_blocks_operation:
  "reachable stand_in_hash ex_sharing_drained
   \<and> pat_dataSharing (patients ex_sharing_drained 1) = Enabled
   \<and> hasRole ex_sharing_drained PATIENT_ROLE 1
   \<and> balanceOf (sonicToken ex_sharing_drained) (self ex_sharing_drained) = 0
   \<and> requestAISymptomAnalysis ex_sharing_drained 1 1000100 ''fever'' = Inl TokenCallReverted
   \<and> aiAnalysisCounter (commit ex_sharing_drained
        (requestAISymptomAnalysis ex_sharing_drained 1 1000100 ''fever'')) = 0
   \<and> orderLabTest ex_sharing_drained 2 1000100 1 ''blood'' = Inl TokenCallReverted
   \<and> labTestCounter (commit ex_sharing_drained
        (orderLabTest ex_sharing_drained 2 1000100 1 ''blood'')) = 0
   \<and> pat_lastRewardTimestamp (patients (commit ex_sharing_quiet
        (requestAISymptomAnalysis ex_sharing_quiet 1 1000100 ''fever'')) 1) = 1000100
   \<and> balanceOf (sonicToken (commit ex_sharing_quiet
        (requestAISymptomAnalysis ex_sharing_quiet 1 1000100 ''fever''))) 1 = 0
   \<and> claimDataReward ex_sharing_drained 1 1000100 = Inl InsufficientSONICTokens"
proof -
  have "exec stand_in_hash ex_ready 1 0 1000000 (ToggleDataMonetization True) = Inr ex_sharing"
    by (simp add: eval_defs)
  with ex_ready_reachable have "reachable stand_in_hash ex_sharing" by (rule reach_call)
  then have "reachable stand_in_hash
      (ex_sharing\<lparr>ethBalance := ethBalance ex_sharing, acceptsEther := acceptsEther ex_sharing,
         usdcToken := usdcToken ex_sharing, sonicToken := ex_sonic_empty\<rparr>)"
    by (rule reach_env)
  then have r: "reachable stand_in_hash ex_sharing_drained"
    by (simp add: ex_sharing_drained_def)
  have "pat_dataSharing (patients ex_sharing_drained 1) = Enabled
   \<and> hasRole ex_sharing_drained PATIENT_ROLE 1
   \<and> balanceOf (sonicToken ex_sharing_drained) (self ex_sharing_drained) = 0
   \<and> requestAISymptomAnalysis ex_sharing_drained 1 1000100 ''fever'' = Inl TokenCallReverted
   \<and> aiAnalysisCounter (commit ex_sharing_drained
        (requestAISymptomAnalysis ex_sharing_drained 1 1000100 ''fever'')) = 0
   \<and> orderLabTest ex_sharing_drained 2 1000100 1 ''blood'' = Inl TokenCallReverted
   \<and> labTestCounter (commit ex_sharing_drained
        (orderLabTest ex_sharing_drained 2 1000100 1 ''blood'')) = 0
   \<and> pat_lastRewardTimestamp (patients (commit ex_sharing_quiet
        (requestAISymptomAnalysis ex_sharing_quiet 1 1000100 ''fever'')) 1) = 1000100
   \<and> balanceOf (sonicToken (commit ex_sharing_quiet
        (requestAISymptomAnalysis ex_sharing_quiet 1 1000100 ''fever''))) 1 = 0
   \<and> claimDataReward ex_sharing_drained 1 1000100 = Inl InsufficientSONICTokens"
    by (simp add: eval_defs)
  with r show ?thesis by (rule conjI)
qed

section \<open>Identifiers that were never created\<close>

lemma exec_rx_first_status:
  "exec H s sender v now c = Inr s' \<Longrightarrow> never_created (prescriptionCounter s') j \<Longrightarrow>
     rx_status (prescriptions s' j) = Generated \<Longrightarrow>
     prescriptions s' j = prescriptions s j \<and> never_created (prescriptionCounter s) j"
  by (induction c arbitrary: s sender v s')
     (auto simp: modifier_defs helper_defs op_defs Let_def never_created_def
           split: if_splits sum.splits option.splits prod.splits)

lemma exec_lab_first_status:
  "exec H s sender v now c = Inr s' \<Longrightarrow> never_created (labTestCounter s') j \<Longrightarrow>
     lab_status (labTestOrders s' j) = Requested \<Longrightarrow>
     labTestOrders s' j = labTestOrders s j \<and> never_created (labTestCounter s) j"
  by (induction c arbitrary: s sender v s')
     (auto simp: modifier_defs helper_defs op_defs Let_def never_created_def
           split: if_splits sum.splits option.splits prod.splits)

lemma exec_apt_first_status:
  "exec H s sender v now c = Inr s' \<Longrightarrow> never_created (appointmentCounter s') j \<Longrightarrow>
     apt_status (appointments s' j) = Pending \<Longrightarrow>
     appointments s' j = appointments s j \<and> never_created (appointmentCounter s) j"
  by (induction c arbitrary: s sender v s')
     (auto simp: modifier_defs helper_defs op_defs Let_def never_created_def
           split: if_splits sum.splits option.splits prod.splits)

lemma initialize_records:
  "prescriptions (initialize d a ep eth acc usdc sonic) i = default_Prescription"
  "labTestOrders (initialize d a ep eth acc usdc sonic) i = default_LabTestOrder"
  "appointments (initialize d a ep eth acc usdc sonic) i = default_Appointment"
  by (simp_all add: initialize_def internal_grantRole_def hasRole_def emit_def)

lemma reachable_untouched:
  "reachable H s \<Longrightarrow>
     (\<forall>i. never_created (prescriptionCounter s) i \<and> rx_status (prescriptions s i) = Generated
          \<longrightarrow> prescriptions s i = default_Prescription)
   \<and> (\<forall>i. never_created (labTestCounter s) i \<and> lab_status (labTestOrders s i) = Requested
          \<longrightarrow> labTestOrders s i = default_LabTestOrder)
   \<and> (\<forall>i. never_created (appointmentCounter s) i \<and> apt_status (appointments s i) = Pending
          \<longrightarrow> appointments s i = default_Appointment)"
proof (induction rule: reachable.induct)
  case (reach_init deployer selfAddr ep eth acc usdc sonic)
  then show ?case by (simp add: initialize_records)
next
  case (reach_call s sender v now c s')
  from reach_call.IH
  have a: "\<forall>i. never_created (prescriptionCounter s) i \<and> rx_status (prescriptions s i) = Generated
          \<longrightarrow> prescriptions s i = default_Prescription"
    and b: "\<forall>i. never_created (labTestCounter s) i \<and> lab_status (labTestOrders s i) = Requested
          \<longrightarrow> labTestOrders s i = default_LabTestOrder"
    and c: "\<forall>i. never_created (appointmentCounter s) i \<and> apt_status (appointments s i) = Pending
          \<longrightarrow> appointments s i = default_Appointment"
    by simp_all
  show ?case
  proof (intro conjI allI impI)
    fix i
    assume h: "never_created (prescriptionCounter s') i \<and> rx_status (prescriptions s' i) = Generated"
    with exec_rx_first_status [OF reach_call.hyps(2), of i]
    have e: "prescriptions s' i = prescriptions s i" and n: "never_created (prescriptionCounter s) i"
      by simp_all
    from h e have "rx_status (prescriptions s i) = Generated" by simp
    with a n have "prescriptions s i = default_Prescription" by blast
    with e show "prescriptions s' i = default_Prescription" by simp
  next
    fix i
    assume h: "never_created (labTestCounter s') i \<and> lab_status (labTestOrders s' i) = Requested"
    with exec_lab_first_status [OF reach_call.hyps(2), of i]
    have e: "labTestOrders s' i = labTestOrders s i" and n: "never_created (labTestCounter s) i"
      by simp_all
    from h e have "lab_status (labTestOrders s i) = Requested" by simp
    with b n have "labTestOrders s i = default_LabTestOrder" by blast
    with e show "labTestOrders s' i = default_LabTestOrder" by simp
  next
    fix i
    assume h: "never_created (appointmentCounter s') i \<and> apt_status (appointments s' i) = Pending"
    with exec_apt_first_status [OF reach_call.hyps(2), of i]
    have e: "appointments s' i = appointments s i" and n: "never_created (appointmentCounter s) i"
      by simp_all
    from h e have "apt_status (appointments s i) = Pending" by simp
    with c n have "appointments s i = default_Appointment" by blast
    with e show "appointments s' i = default_Appointment" by simp
  qed
next
  case (reach_env s eth acc usdc sonic)
  then show ?case by simp
qed

lemma verifyPrescription_phantom:
  assumes "prescriptions s i = default_Prescription" and "hasRole s PHARMACY_ROLE ph"
  shows "\<exists>s'. verifyPrescription s ph i 0 = Inr s'
           \<and> prescriptions s' i = default_Prescription\<lparr>rx_status := Verified, rx_pharmacy := ph\<rparr>
           \<and> prescriptionCounter s' = prescriptionCounter s"
  using assms
  by (simp add: verifyPrescription_def onlyRole_def emit_def default_Prescription_def)

lemma collectSample_phantom:
  assumes "labTestOrders s i = default_LabTestOrder" and "hasRole s LAB_TECH_ROLE lt"
  shows "\<exists>s'. collectSample s lt i h = Inr s'
           \<and> labTestOrders s' i = default_LabTestOrder
                \<lparr>lab_labTech := lt, lab_sampleCollectionIpfsHash := h, lab_status := Collected\<rparr>
           \<and> labTestCounter s' = labTestCounter s"
  using assms
  by (simp add: collectSample_def onlyRole_def default_LabTestOrder_def)

text \<open>
  C4 (as the contract has it). The all-default record has the first status of its machine, and
  a fresh deployment holds it at every identifier. In every reachable state, the record at
  a never-created identifier (a \<^verbatim>\<open>uint256\<close> that is zero or above the counter) is the
  all-default value as long as its status is still that first status. On a never-created
  identifier with the all-default record, \<^verbatim>\<open>verifyPrescription\<close> with the zero hash from
  any pharmacy succeeds and marks the record Verified, and \<^verbatim>\<open>collectSample\<close> from any lab
  technician succeeds and marks it Collected; the identifier is as uncreated afterwards as
  before. Some reachable state has such a prescription identifier and a pharmacy, and such
  a lab test identifier and a lab technician.
\<close>

theorem never_created_records:
  "rx_status default_Prescription = Generated
   \<and> lab_status default_LabTestOrder = Requested
   \<and> apt_status default_Appointment = Pending
   \<and> prescriptions (initialize d a ep eth acc usdc sonic) i = default_Prescription
   \<and> labTestOrders (initialize d a ep eth acc usdc sonic) i = default_LabTestOrder
   \<and> appointments (initialize d a ep eth acc usdc sonic) i = default_Appointment
   \<and> (reachable H s \<longrightarrow>
        (never_created (prescriptionCounter s) i \<and> rx_status (prescriptions s i) = Generated
           \<longrightarrow> prescriptions s i = default_Prescription)
      \<and> (never_created (labTestCounter s) i \<and> lab_status (labTestOrders s i) = Requested
           \<longrightarrow> labTestOrders s i = default_LabTestOrder)
      \<and> (never_created (appointmentCounter s) i \<and> apt_status (appointments s i) = Pending
           \<longrightarrow> appointments s i = default_Appointment))
   \<and> (never_created (prescriptionCounter s) i \<and> prescriptions s i = default_Prescription
       \<and> hasRole s PHARMACY_ROLE ph \<longrightarrow>
        (\<exists>s'. verifyPrescription s ph i 0 = Inr s'
           \<and> rx_status (prescriptions s' i) = Verified \<and> rx_pharmacy (prescriptions s' i) = ph
           \<and> never_created (prescriptionCounter s') i))
   \<and> (never_created (labTestCounter s) i \<and> labTestOrders s i = default_LabTestOrder
       \<and> hasRole s LAB_TECH_ROLE lt \<longrightarrow>
        (\<exists>s'. collectSample s lt i h = Inr s'
           \<and> lab_status (labTestOrders s' i) = Collected \<and> lab_labTech (labTestOrders s' i) = lt
           \<and> never_created (labTestCounter s') i))
   \<and> (\<exists>s0 j p s'. reachable H s0 \<and> never_created (prescriptionCounter s0) j
         \<and> hasRole s0 PHARMACY_ROLE p \<and> verifyPrescription s0 p j 0 = Inr s'
         \<and> rx_status (prescriptions s' j) = Verified \<and> never_created (prescriptionCounter s') j)
   \<and> (\<exists>s0 j t s'. reachable H s0 \<and> never_created (labTestCounter s0) j
         \<and> hasRole s0 LAB_TECH_ROLE t \<and> collectSample s0 t j h = Inr s'
         \<and> lab_status (labTestOrders s' j) = Collected \<and> never_created (labTestCounter s') j)"
proof -
  have r: "reachable H s \<longrightarrow>
        (never_created (prescriptionCounter s) i \<and> rx_status (prescriptions s i) = Generated
           \<longrightarrow> prescriptions s i = default_Prescription)
      \<and> (never_created (labTestCounter s) i \<and> lab_status (labTestOrders s i) = Requested
           \<longrightarrow> labTestOrders s i = default_LabTestOrder)
      \<and> (never_created (appointmentCounter s) i \<and> apt_status (appointments s i) = Pending
           \<longrightarrow> appointments s i = default_Appointment)"
    using reachable_untouched [of H s] by blast
  have p: "never_created (prescriptionCounter s) i \<and> prescriptions s i = default_Prescription
       \<and> hasRole s PHARMACY_ROLE ph \<longrightarrow>
        (\<exists>s'. verifyPrescription s ph i 0 = Inr s'
           \<and> rx_status (prescriptions s' i) = Verified \<and> rx_pharmacy (prescriptions s' i) = ph
           \<and> never_created (prescriptionCounter s') i)"
    for s i ph
  proof
    assume a: "never_created (prescriptionCounter s) i \<and> prescriptions s i = default_Prescription
       \<and> hasRole s PHARMACY_ROLE ph"
    then obtain s' where "verifyPrescription s ph i 0 = Inr s'"
      "prescriptions s' i = default_Prescription\<lparr>rx_status := Verified, rx_pharmacy := ph\<rparr>"
      "prescriptionCounter s' = prescriptionCounter s"
      using verifyPrescription_phantom [of s i ph] by blast
    with a show "\<exists>s'. verifyPrescription s ph i 0 = Inr s'
           \<and> rx_status (prescriptions s' i) = Verified \<and> rx_pharmacy (prescriptions s' i) = ph
           \<and> never_created (prescriptionCounter s') i"
      by (intro exI [of _ s']) simp
  qed
  have l: "never_created (labTestCounter s) i \<and> labTestOrders s i = default_LabTestOrder
       \<and> hasRole s LAB_TECH_ROLE lt \<longrightarrow>
        (\<exists>s'. collectSample s lt i h = Inr s'
           \<and> lab_status (labTestOrders s' i) = Collected \<and> lab_labTech (labTestOrders s' i) = lt
           \<and> never_created (labTestCounter s') i)"
    for s i lt
  proof
    assume a: "never_created (labTestCounter s) i \<and> labTestOrders s i = default_LabTestOrder
       \<and> hasRole s LAB_TECH_ROLE lt"
    then obtain s' where "collectSample s lt i h = Inr s'"
      "labTestOrders s' i = default_LabTestOrder
                \<lparr>lab_labTech := lt, lab_sampleCollectionIpfsHash := h, lab_status := Collected\<rparr>"
      "labTestCounter s' = labTestCounter s"
      using collectSample_phantom [of s i lt h] by blast
    with a show "\<exists>s'. collectSample s lt i h = Inr s'
           \<and> lab_status (labTestOrders s' i) = Collected \<and> lab_labTech (labTestOrders s' i) = lt
           \<and> never_created (labTestCounter s') i"
      by (intro exI [of _ s']) simp
  qed
  have d: "rx_status default_Prescription = Generated" "lab_status default_LabTestOrder = Requested"
    "apt_status default_Appointment = Pending"
    by (simp_all add: default_defs)
  have f: "never_created (prescriptionCounter ex_ready) 1" "never_created (labTestCounter ex_ready) 1"
    "prescriptions ex_ready 1 = default_Prescription" "labTestOrders ex_ready 1 = default_LabTestOrder"
    "hasRole ex_ready PHARMACY_ROLE 4" "hasRole ex_ready LAB_TECH_ROLE 3"
    by (simp_all add: eval_defs never_created_def)
  have re: "reachable H ex_ready" by (rule ex_ready_reachable)
  from p [of ex_ready 1 4] f obtain s1 where
    s1: "verifyPrescription ex_ready 4 1 0 = Inr s1" "rx_status (prescriptions s1 1) = Verified"
      "never_created (prescriptionCounter s1) 1"
    by blast
  from l [of ex_ready 1 3] f obtain s2 where
    s2: "collectSample ex_ready 3 1 h = Inr s2" "lab_status (labTestOrders s2 1) = Collected"
      "never_created (labTestCounter s2) 1"
    by blast
  have ep: "\<exists>s0 j p s'. reachable H s0 \<and> never_created (prescriptionCounter s0) j
         \<and> hasRole s0 PHARMACY_ROLE p \<and> verifyPrescription s0 p j 0 = Inr s'
         \<and> rx_status (prescriptions s' j) = Verified \<and> never_created (prescriptionCounter s') j"
    using re f(1,5) s1
    by (intro exI [of _ ex_ready] exI [of _ 1] exI [of _ 4] exI [of _ s1]) simp
  have el: "\<exists>s0 j t s'. reachable H s0 \<and> never_created (labTestCounter s0) j
         \<and> hasRole s0 LAB_TECH_ROLE t \<and> collectSample s0 t j h = Inr s'
         \<and> lab_status (labTestOrders s' j) = Collected \<and> never_created (labTestCounter s') j"
    using re f(2,6) s2
    by (intro exI [of _ ex_ready] exI [of _ 1] exI [of _ 3] exI [of _ s2]) simp
  note i = initialize_records [of d a ep eth acc usdc sonic i]
  show ?thesis
    using d i r p [of s i ph] l [of s i lt] ep el by (intro conjI) assumption+
qed

theorem never_created_records_witness:
  "reachable stand_in_hash ex_ready
   \<and> never_created (prescriptionCounter ex_ready) 1 \<and> never_created (labTestCounter ex_ready) 1
   \<and> prescriptions ex_ready 1 = default_Prescription
   \<and> (\<exists>s'. verifyPrescription ex_ready 4 1 0 = Inr s' \<and> rx_status (prescriptions s' 1) = Verified
         \<and> never_created (prescriptionCounter s') 1)
   \<and> (\<exists>s'. collectSample ex_ready 3 1 ''QmSample'' = Inr s' \<and> lab_status (labTestOrders s' 1) = Collected
         \<and> never_created (labTestCounter s') 1)"
proof -
  have f: "never_created (prescriptionCounter ex_ready) 1" "never_created (labTestCounter ex_ready) 1"
    "rx_status (prescriptions ex_ready 1) = Generated" "lab_status (labTestOrders ex_ready 1) = Requested"
    "hasRole ex_ready PHARMACY_ROLE 4" "hasRole ex_ready LAB_TECH_ROLE 3"
    by (simp_all add: eval_defs never_created_def)
  have re: "reachable stand_in_hash ex_ready" by (rule ex_ready_reachable)
  note T = never_created_records [where H = stand_in_hash and s = ex_ready and i = 1 and ph = 4
      and lt = 3 and h = "''QmSample''" and d = 100 and a = 500 and ep = 600
      and eth = "\<lambda>a. 0" and acc = "\<lambda>a. True" and usdc = ex_usdc and sonic = ex_sonic_funded]
  note T7 = T [THEN conjunct2, THEN conjunct2, THEN conjunct2, THEN conjunct2, THEN conjunct2,
      THEN conjunct2]
  from T7 [THEN conjunct1] re f
  have p: "prescriptions ex_ready 1 = default_Prescription"
    and l: "labTestOrders ex_ready 1 = default_LabTestOrder"
    by simp_all
  note vp = T7 [THEN conjunct2, THEN conjunct1]
  note cs = T7 [THEN conjunct2, THEN conjunct2, THEN conjunct1]
  from vp p f have a: "\<exists>s'. verifyPrescription ex_ready 4 1 0 = Inr s'
         \<and> rx_status (prescriptions s' 1) = Verified \<and> never_created (prescriptionCounter s') 1"
    by blast
  from cs l f have b: "\<exists>s'. collectSample ex_ready 3 1 ''QmSample'' = Inr s'
         \<and> lab_status (labTestOrders s' 1) = Collected \<and> never_created (labTestCounter s') 1"
    by blast
  from re f(1,2) p a b show ?thesis by (intro conjI) assumption+
qed

text \<open>
  C4 as stated fails in its first part. After pharmacy 4 verified the prescription
  identifier 1 on the example deployment, no prescription has been created (the counter is
  zero), and the record stored at identifier 1 is not the all-default value: its status is
  Verified. The same holds for the lab test identifier 1 after technician 3 collected a
  sample for it.
\<close>

theorem never_created_not_default_counterexample:
  "reachable stand_in_hash ex_phantom_rx
   \<and> never_created (prescriptionCounter ex_phantom_rx) 1
   \<and> prescriptions ex_phantom_rx 1 \<noteq> default_Prescription
   \<and> rx_status (prescriptions ex_phantom_rx 1) = Verified
   \<and> reachable stand_in_hash ex_phantom_lab
   \<and> never_created (labTestCounter ex_phantom_lab) 1
   \<and> labTestOrders ex_phantom_lab 1 \<noteq> default_LabTestOrder
   \<and> lab_status (labTestOrders ex_phantom_lab 1) = Collected"
proof -
  have a: "exec stand_in_hash ex_ready 4 0 1000100 (VerifyPrescription 1 0) = Inr ex_phantom_rx"
    by (simp add: eval_defs)
  have b: "exec stand_in_hash ex_ready 3 0 1000100 (CollectSample 1 ''QmSample'') = Inr ex_phantom_lab"
    by (simp add: eval_defs)
  have c: "never_created (prescriptionCounter ex_phantom_rx) 1"
    "rx_status (prescriptions ex_phantom_rx 1) = Verified"
    "never_created (labTestCounter ex_phantom_lab) 1"
    "lab_status (labTestOrders ex_phantom_lab 1) = Collected"
    by (simp_all add: eval_defs never_created_def)
  have d: "rx_status default_Prescription = Generated" "lab_status default_LabTestOrder = Requested"
    by (simp_all add: default_defs)
  from c d have e: "prescriptions ex_phantom_rx 1 \<noteq> default_Prescription"
    "labTestOrders ex_phantom_lab 1 \<noteq> default_LabTestOrder"
    by auto
  from reach_call [OF ex_ready_reachable a] reach_call [OF ex_ready_reachable b] c e
  show ?thesis by blast
qed

end
